theory Spec2Isabelle
  imports Complex_Main
begin

section \<open>Strings, numbers and JavaScript truthiness\<close>

text \<open>
  A JavaScript string is a sequence of UTF-16 code units; \<open>length\<close>, \<open>split\<close>,
  \<open>startsWith\<close>, \<open>slice\<close>, \<open>trim\<close> and regular expressions without the \<open>u\<close> flag
  all count code units. A string is therefore a list of code units, each a natural
  number (a real code unit is below 65536; no definition below does arithmetic on
  one, so the bound is not needed). \<open>str\<close> turns an ASCII literal into such a list.

  A JavaScript number is modelled as an exact rational: the components only select,
  add, subtract, multiply and divide by constants, and the properties below are
  about which value is selected and which structure is built, not about rounding.
  \<open>NaN\<close> and the infinities are outside the model.
\<close>

type_synonym jstring = "nat list"

definition str :: "string \<Rightarrow> jstring" where
  "str s = map of_char s"

text \<open>\<open>s.startsWith(p)\<close> and \<open>s.endsWith(p)\<close>.\<close>

definition startsWith :: "jstring \<Rightarrow> jstring \<Rightarrow> bool" where
  "startsWith s p = (take (length p) s = p)"

definition endsWith :: "jstring \<Rightarrow> jstring \<Rightarrow> bool" where
  "endsWith s p = (length p \<le> length s \<and> drop (length s - length p) s = p)"

text \<open>
  \<open>s.slice(start, end)\<close> with the relative indices of ECMAScript: a negative index
  counts from the end, both are clamped to the string, and an empty range gives the
  empty string. \<open>sliceFrom\<close> is the one-argument form.
\<close>

definition relIndex :: "nat \<Rightarrow> int \<Rightarrow> nat" where
  "relIndex len i = (if i < 0 then nat (max (int len + i) 0) else min (nat i) len)"

definition slice :: "jstring \<Rightarrow> int \<Rightarrow> int \<Rightarrow> jstring" where
  "slice s start end =
     (let from = relIndex (length s) start; to = relIndex (length s) end
      in take (to - from) (drop from s))"

definition sliceFrom :: "jstring \<Rightarrow> int \<Rightarrow> jstring" where
  "sliceFrom s start = drop (relIndex (length s) start) s"

text \<open>
  The code units that \<open>trim\<close> removes (ECMAScript WhiteSpace and LineTerminator),
  the ones that \<open>.\<close> in a regular expression refuses (LineTerminator), and the ones
  that \<open>\d\<close> accepts.
\<close>

definition isWhiteSpace :: "nat \<Rightarrow> bool" where
  "isWhiteSpace c =
     (c = 9 \<or> c = 10 \<or> c = 11 \<or> c = 12 \<or> c = 13 \<or> c = 32 \<or> c = 160 \<or> c = 5760
      \<or> (8192 \<le> c \<and> c \<le> 8202) \<or> c = 8232 \<or> c = 8233 \<or> c = 8239 \<or> c = 8287
      \<or> c = 12288 \<or> c = 65279)"

definition isLineTerminator :: "nat \<Rightarrow> bool" where
  "isLineTerminator c = (c = 10 \<or> c = 13 \<or> c = 8232 \<or> c = 8233)"

definition isDigit :: "nat \<Rightarrow> bool" where
  "isDigit c = (48 \<le> c \<and> c \<le> 57)"

definition trimStart :: "jstring \<Rightarrow> jstring" where
  "trimStart s = dropWhile isWhiteSpace s"

definition trimEnd :: "jstring \<Rightarrow> jstring" where
  "trimEnd s = rev (dropWhile isWhiteSpace (rev s))"

definition trim :: "jstring \<Rightarrow> jstring" where
  "trim s = trimEnd (trimStart s)"

text \<open>
  \<open>s.split('\n')\<close> (in general, splitting at one code unit) and
  \<open>lines.join('\n')\<close>. Splitting the empty string gives one empty line.
\<close>

fun splitOn :: "nat \<Rightarrow> jstring \<Rightarrow> jstring list" where
  "splitOn d [] = [[]]"
| "splitOn d (c # cs) =
     (if c = d then [] # splitOn d cs
      else (case splitOn d cs of [] \<Rightarrow> [[c]] | l # ls \<Rightarrow> (c # l) # ls))"

fun joinWith :: "nat \<Rightarrow> jstring list \<Rightarrow> jstring" where
  "joinWith d [] = []"
| "joinWith d [l] = l"
| "joinWith d (l # ls) = l @ d # joinWith d ls"

text \<open>
  Truthiness. An optional string is truthy when it is present and not empty, an
  optional number when it is present and not zero, an optional boolean when it is
  \<open>true\<close>. \<open>a || b\<close> takes \<open>a\<close> when it is truthy and \<open>a ?? b\<close> when it is defined.
\<close>

definition truthyS :: "jstring option \<Rightarrow> bool" where
  "truthyS a = (case a of None \<Rightarrow> False | Some s \<Rightarrow> s \<noteq> [])"

definition truthyB :: "bool option \<Rightarrow> bool" where
  "truthyB a = (a = Some True)"

definition orS :: "jstring option \<Rightarrow> jstring \<Rightarrow> jstring" where
  "orS a b = (case a of None \<Rightarrow> b | Some s \<Rightarrow> if s = [] then b else s)"

definition orN :: "rat option \<Rightarrow> rat \<Rightarrow> rat" where
  "orN a b = (case a of None \<Rightarrow> b | Some v \<Rightarrow> if v = 0 then b else v)"

definition nullish :: "'a option \<Rightarrow> 'a \<Rightarrow> 'a" where
  "nullish a b = (case a of None \<Rightarrow> b | Some v \<Rightarrow> v)"

section \<open>Inline markup parser\<close>

datatype Theme = LIGHT | DARK

text \<open>
  All three templates split a line with the same regular expression,
  \<^verbatim>\<open>text.split(/(\*\*.*?\*\*|\*.*?\*|~~.*?~~|__.*?__)/g)\<close>.

  \<open>lazyUntil d s\<close> is the lazy \<^verbatim>\<open>.*?\<close> followed by the closing delimiter \<open>d\<close>: it tries
  the delimiter here, and only when that fails consumes one more code unit, which
  must not be a line terminator. It returns the consumed body and the text after the
  closing delimiter. \<open>matchDelim\<close> is one alternative of the regular expression
  matched at the start of \<open>s\<close>; \<open>matchToken\<close> tries the four alternatives in their
  order and returns the matched token with the rest of the text.
\<close>

fun lazyUntil :: "jstring \<Rightarrow> jstring \<Rightarrow> (jstring \<times> jstring) option" where
  "lazyUntil d [] = (if startsWith [] d then Some ([], []) else None)"
| "lazyUntil d (c # cs) =
     (if startsWith (c # cs) d then Some ([], drop (length d) (c # cs))
      else if isLineTerminator c then None
      else (case lazyUntil d cs of
              None \<Rightarrow> None
            | Some (body, rest) \<Rightarrow> Some (c # body, rest)))"

definition matchDelim :: "jstring \<Rightarrow> jstring \<Rightarrow> (jstring \<times> jstring) option" where
  "matchDelim d s =
     (if startsWith s d then
        (case lazyUntil d (drop (length d) s) of
           None \<Rightarrow> None
         | Some (body, rest) \<Rightarrow> Some (d @ body @ d, rest))
      else None)"

definition matchToken :: "jstring \<Rightarrow> (jstring \<times> jstring) option" where
  "matchToken s =
     (case matchDelim (str ''**'') s of Some r \<Rightarrow> Some r | None \<Rightarrow>
      (case matchDelim (str ''*'') s of Some r \<Rightarrow> Some r | None \<Rightarrow>
      (case matchDelim (str ''~~'') s of Some r \<Rightarrow> Some r | None \<Rightarrow>
       matchDelim (str ''__'') s)))"

lemma lazyUntil_shorter:
  "lazyUntil d s = Some (body, rest) \<Longrightarrow> length rest \<le> length s"
proof (induction s arbitrary: body)
  case Nil
  then show ?case by (simp split: if_splits)
next
  case (Cons c cs)
  show ?case
  proof (cases "startsWith (c # cs) d")
    case True
    with Cons.prems have "rest = drop (length d) (c # cs)" by simp
    then show ?thesis by simp
  next
    case False
    with Cons.prems obtain b where "lazyUntil d cs = Some (b, rest)"
      by (auto split: if_splits option.splits)
    from Cons.IH [OF this] show ?thesis by simp
  qed
qed

lemma startsWith_length: "startsWith s d \<Longrightarrow> length d \<le> length s"
proof -
  assume "startsWith s d"
  then have "length (take (length d) s) = length d"
    unfolding startsWith_def by (rule arg_cong)
  then show ?thesis by simp
qed

lemma matchDelim_shorter:
  assumes "matchDelim d s = Some (tok, rest)" and "d \<noteq> []"
  shows "length rest < length s"
proof -
  from assms(1) have sw: "startsWith s d"
    unfolding matchDelim_def by (cases "startsWith s d") simp_all
  with assms(1) obtain body where lu: "lazyUntil d (drop (length d) s) = Some (body, rest)"
    unfolding matchDelim_def by (cases "lazyUntil d (drop (length d) s)") auto
  from sw have "length d \<le> length s" by (rule startsWith_length)
  moreover from assms(2) have "0 < length d" by simp
  moreover from lazyUntil_shorter [OF lu] have "length rest \<le> length s - length d" by simp
  ultimately show ?thesis by linarith
qed

lemma matchToken_shorter:
  assumes "matchToken s = Some (tok, rest)"
  shows "length rest < length s"
proof -
  have ne: "str ''**'' \<noteq> []" "str ''*'' \<noteq> []" "str ''~~'' \<noteq> []" "str ''__'' \<noteq> []"
    by (simp_all add: str_def)
  from assms consider
      "matchDelim (str ''**'') s = Some (tok, rest)"
    | "matchDelim (str ''*'') s = Some (tok, rest)"
    | "matchDelim (str ''~~'') s = Some (tok, rest)"
    | "matchDelim (str ''__'') s = Some (tok, rest)"
    unfolding matchToken_def by (auto split: option.splits)
  then show ?thesis
    by cases (rule matchDelim_shorter, assumption, rule ne)+
qed

text \<open>
  \<open>String.prototype.split\<close> with a regular expression that has one capture group:
  scan from the left; where the expression matches, emit the text collected since
  the last match, then the captured token, and go on after the match; where it does
  not, move one code unit on. The text left at the end is emitted too, so the result
  alternates literal, token, literal, ..., literal, and the literals may be empty.
  (The expression never matches the empty string, so the rule of the standard for
  empty matches does not arise.)
\<close>

function splitFrom :: "jstring \<Rightarrow> jstring \<Rightarrow> jstring list" where
  "splitFrom acc [] = [acc]"
| "splitFrom acc (c # cs) =
     (case matchToken (c # cs) of
        Some (tok, rest) \<Rightarrow> acc # tok # splitFrom [] rest
      | None \<Rightarrow> splitFrom (acc @ [c]) cs)"
  by pat_completeness auto
termination
proof (relation "measure (\<lambda>(acc, s). length s)")
  show "wf (measure (\<lambda>(acc :: jstring, s :: jstring). length s))" by simp
next
  fix acc :: jstring and c cs x2 x y
  assume "matchToken (c # cs) = Some x2" and "(x, y) = x2"
  then have "matchToken (c # cs) = Some (x, y)" by simp
  then have "length y < length (c # cs)" by (rule matchToken_shorter)
  then show "(([], y), acc, c # cs) \<in> measure (\<lambda>(acc, s). length s)" by simp
next
  fix acc :: jstring and c cs
  show "((acc @ [c], cs), acc, c # cs) \<in> measure (\<lambda>(acc, s). length s)" by simp
qed

definition splitInline :: "jstring \<Rightarrow> jstring list" where
  "splitInline text = splitFrom [] text"

text \<open>
  A styled run. \<open>Strong\<close>, \<open>Em\<close> and \<open>Strike\<close> carry the class name that the
  template gives the element, \<open>Highlight\<close> its background colour; \<open>Lit\<close> is a part
  returned as it is.
\<close>

datatype run =
    Lit jstring
  | Strong string jstring
  | Em string jstring
  | Strike string jstring
  | Underline jstring
  | Highlight jstring jstring

text \<open>\<open>parseInline\<close> of \<^verbatim>\<open>TwitterSlide.tsx\<close> (feed-text).\<close>

definition parseInline_Twitter :: "jstring \<Rightarrow> Theme \<Rightarrow> run list" where
  "parseInline_Twitter text theme =
     (let boldColor = (if theme = DARK then ''text-white'' else ''text-gray-900'');
          italicColor = (if theme = DARK then ''text-gray-300'' else ''text-gray-800'');
          strikeColor = (if theme = DARK then ''text-gray-600'' else ''text-gray-500'');
          parts = splitInline text
      in map (\<lambda>part.
            if startsWith part (str ''**'') \<and> endsWith part (str ''**'')
              then Strong (''font-bold '' @ boldColor) (slice part 2 (- 2))
            else if startsWith part (str ''*'') \<and> endsWith part (str ''*'')
              then Em (''italic '' @ italicColor) (slice part 1 (- 1))
            else if startsWith part (str ''~~'') \<and> endsWith part (str ''~~'')
              then Strike strikeColor (slice part 2 (- 2))
            else if startsWith part (str ''__'') \<and> endsWith part (str ''__'')
              then Underline (slice part 2 (- 2))
            else Lit part) parts)"

text \<open>
  \<open>parseInline\<close> of the Storyteller component (cinematic-image) and of
  \<^verbatim>\<open>LessonSlide.tsx\<close>: the same split and the same tests; \<^verbatim>\<open>__x__\<close> is a highlight
  whose background is the accent colour with the alpha suffix \<^verbatim>\<open>4D\<close>, or a
  theme-dependent default.
\<close>

definition highlightStyle :: "Theme \<Rightarrow> jstring option \<Rightarrow> jstring" where
  "highlightStyle theme accentColor =
     (if truthyS accentColor then orS accentColor [] @ str ''4D''
      else if theme = DARK then str ''rgba(255,255,255,0.1)'' else str ''rgba(0,0,0,0.1)'')"

definition parseInline_Storyteller :: "jstring \<Rightarrow> Theme \<Rightarrow> jstring option \<Rightarrow> run list" where
  "parseInline_Storyteller text theme accentColor =
     (let boldColor = (if theme = DARK then ''text-white'' else ''text-black'');
          italicColor = (if theme = DARK then ''text-gray-300'' else ''text-gray-600'');
          parts = splitInline text
      in map (\<lambda>part.
            if startsWith part (str ''**'') \<and> endsWith part (str ''**'')
              then Strong (''font-black '' @ boldColor) (slice part 2 (- 2))
            else if startsWith part (str ''*'') \<and> endsWith part (str ''*'')
              then Em (''italic '' @ italicColor) (slice part 1 (- 1))
            else if startsWith part (str ''~~'') \<and> endsWith part (str ''~~'')
              then Strike ''opacity-70'' (slice part 2 (- 2))
            else if startsWith part (str ''__'') \<and> endsWith part (str ''__'')
              then Highlight (highlightStyle theme accentColor) (slice part 2 (- 2))
            else Lit part) parts)"

definition parseInline_Lesson :: "jstring \<Rightarrow> Theme \<Rightarrow> jstring option \<Rightarrow> run list" where
  "parseInline_Lesson text theme accentColor =
     (let boldColor = (if theme = DARK then ''text-white'' else ''text-black'');
          italicColor = (if theme = DARK then ''text-gray-300'' else ''text-gray-600'');
          parts = splitInline text
      in map (\<lambda>part.
            if startsWith part (str ''**'') \<and> endsWith part (str ''**'')
              then Strong (''font-bold '' @ boldColor) (slice part 2 (- 2))
            else if startsWith part (str ''*'') \<and> endsWith part (str ''*'')
              then Em (''italic '' @ italicColor) (slice part 1 (- 1))
            else if startsWith part (str ''~~'') \<and> endsWith part (str ''~~'')
              then Strike ''opacity-70'' (slice part 2 (- 2))
            else if startsWith part (str ''__'') \<and> endsWith part (str ''__'')
              then Highlight (highlightStyle theme accentColor) (slice part 2 (- 2))
            else Lit part) parts)"

section \<open>Block markdown resolver\<close>

datatype TextAlignment = left | center | right

text \<open>
  The value of one inline style property. A template string such as
  \<^verbatim>\<open>`${h1Size}px`\<close> is \<open>Px h1Size\<close>, \<^verbatim>\<open>`${imageScale}%`\<close> is \<open>Pct imageScale\<close>, a bare
  number is \<open>Num\<close>, \<^verbatim>\<open>`calc(${p}% + ${o}px)`\<close> is \<open>CalcPctPx p o\<close>,
  \<^verbatim>\<open>`calc(100% - ${o}px)`\<close> is \<open>CalcFullMinusPx o\<close>, \<^verbatim>\<open>`0 ${m}px`\<close> is \<open>ZeroPx m\<close>,
  \<^verbatim>\<open>`center ${y}%`\<close> is \<open>CenterPct y\<close>, and
  \<^verbatim>\<open>linear-gradient(to bottom, rgba(..), rgba(..))\<close> is \<open>Gradient\<close> of the two colours,
  each with its red, green, blue and alpha. A style object is the list of its
  properties in the order of the source.
\<close>

type_synonym rgba = "nat \<times> nat \<times> nat \<times> rat"

datatype css =
    Px rat
  | Pct rat
  | Rem rat
  | Num rat
  | CalcPctPx rat rat
  | CalcFullMinusPx rat
  | ZeroPx rat
  | CenterPct rat
  | Colour jstring
  | Align TextAlignment
  | Keyword string
  | Gradient rgba rgba
  | FontFamily "string list"

type_synonym style = "(string \<times> css) list"

text \<open>
  One block per line. A list item carries the classes of its wrapper that depend on
  the alignment, the wrapper's style, the marker (the bullet glyph, or the number:
  the element shows the number followed by a period) with its style, and the style
  of the content.
\<close>

datatype block =
    H1 style "run list"
  | H2 style "run list"
  | BulletItem "string list" style jstring style style "run list"
  | NumberedItem "string list" style jstring style style "run list"
  | Spacer style
  | Paragraph style "run list"

text \<open>
  The numbered-item test \<^verbatim>\<open>/^\d+\. /.test(trimmed)\<close>, the number
  \<^verbatim>\<open>trimmed.match(/^\d+/)?.[0]\<close> and the content
  \<^verbatim>\<open>trimmed.replace(/^\d+\. /, '')\<close>. The greedy \<^verbatim>\<open>\d+\<close> takes every leading digit;
  giving one back never helps, since what follows would be a digit and not a period.
\<close>

definition testNumbered :: "jstring \<Rightarrow> bool" where
  "testNumbered s =
     (takeWhile isDigit s \<noteq> [] \<and> startsWith (dropWhile isDigit s) (str ''. ''))"

definition matchDigits :: "jstring \<Rightarrow> jstring option" where
  "matchDigits s = (if takeWhile isDigit s \<noteq> [] then Some (takeWhile isDigit s) else None)"

definition replaceNumbered :: "jstring \<Rightarrow> jstring" where
  "replaceNumbered s = (if testNumbered s then drop 2 (dropWhile isDigit s) else s)"

definition listJustify :: "TextAlignment \<Rightarrow> string" where
  "listJustify textAlignment =
     (if textAlignment = center then ''justify-center''
      else if textAlignment = right then ''justify-end'' else [])"

definition listClasses :: "TextAlignment \<Rightarrow> string list" where
  "listClasses textAlignment =
     [if textAlignment = left then ''ml-2'' else [], listJustify textAlignment]"

text \<open>
  \<open>renderMarkdown\<close> of \<^verbatim>\<open>TwitterSlide.tsx\<close>; \<open>renderLine_Twitter\<close> is the body of
  its \<^verbatim>\<open>lines.map\<close>. The heading tests read the raw line, the bullet, number and
  blank tests the trimmed one; the bullet's content is \<^verbatim>\<open>line.slice(2)\<close> of the
  raw line.
\<close>

definition renderLine_Twitter ::
  "Theme \<Rightarrow> rat \<Rightarrow> rat \<Rightarrow> rat \<Rightarrow> jstring option \<Rightarrow> TextAlignment \<Rightarrow> jstring \<Rightarrow> block" where
  "renderLine_Twitter theme fontScale lineHeight paragraphGap textColorOverride textAlignment line =
     (let hColor = orS textColorOverride (if theme = DARK then str ''#FFFFFF'' else str ''#111827'');
          textColor = orS textColorOverride (if theme = DARK then str ''#E5E7EB'' else str ''#1F2937'');
          bulletColor = orS textColorOverride (if theme = DARK then str ''#6B7280'' else str ''#9CA3AF'');
          numberColor = orS textColorOverride (if theme = DARK then str ''#FFFFFF'' else str ''#111827'');
          h1Size = 72 * fontScale;
          h2Size = 60 * fontScale;
          bodySize = 48 * fontScale;
          bulletSize = 36 * fontScale;
          paragraphSpacing = paragraphGap * 16;
          trimmed = trim line
      in if startsWith line (str ''# '') then
           H1 [(''fontSize'', Px h1Size), (''lineHeight'', Num lineHeight),
               (''marginBottom'', Px paragraphSpacing), (''color'', Colour hColor),
               (''textAlign'', Align textAlignment)]
              (parseInline_Twitter (sliceFrom line 2) theme)
         else if startsWith line (str ''## '') then
           H2 [(''fontSize'', Px h2Size), (''lineHeight'', Num lineHeight),
               (''marginBottom'', Px (paragraphSpacing * (3 / 4))), (''color'', Colour hColor),
               (''textAlign'', Align textAlignment)]
              (parseInline_Twitter (sliceFrom line 3) theme)
         else if startsWith trimmed (str ''- '') then
           BulletItem (listClasses textAlignment)
             [(''marginBottom'', Px (paragraphSpacing * (1 / 2)))]
             [8226] [(''fontSize'', Px bulletSize), (''color'', Colour bulletColor)]
             [(''fontSize'', Px bodySize), (''lineHeight'', Num lineHeight), (''color'', Colour textColor)]
             (parseInline_Twitter (sliceFrom line 2) theme)
         else if testNumbered trimmed then
           NumberedItem (listClasses textAlignment)
             [(''marginBottom'', Px (paragraphSpacing * (1 / 2)))]
             (case matchDigits trimmed of Some number \<Rightarrow> number | None \<Rightarrow> [])
             [(''fontSize'', Px bodySize), (''color'', Colour numberColor)]
             [(''fontSize'', Px bodySize), (''lineHeight'', Num lineHeight), (''color'', Colour textColor)]
             (parseInline_Twitter (replaceNumbered trimmed) theme)
         else if trimmed = [] then
           Spacer [(''height'', Px (paragraphSpacing * (1 / 2)))]
         else
           Paragraph [(''fontSize'', Px bodySize), (''lineHeight'', Num lineHeight),
                      (''marginBottom'', Px paragraphSpacing), (''color'', Colour textColor),
                      (''textAlign'', Align textAlignment)]
                     (parseInline_Twitter line theme))"

definition renderMarkdown_Twitter ::
  "jstring \<Rightarrow> Theme \<Rightarrow> rat \<Rightarrow> rat \<Rightarrow> rat \<Rightarrow> jstring option \<Rightarrow> TextAlignment \<Rightarrow> block list" where
  "renderMarkdown_Twitter text theme fontScale lineHeight paragraphGap textColorOverride textAlignment =
     map (renderLine_Twitter theme fontScale lineHeight paragraphGap textColorOverride textAlignment)
         (splitOn 10 text)"

text \<open>
  \<open>renderMarkdown\<close> of the Storyteller component: other base sizes, a larger
  bullet glyph, and markers in the accent colour when there is one
  (\<^verbatim>\<open>accentColor ? { color: accentColor } : { color: textColorOverride || ... }\<close>).
\<close>

definition bulletStyle_Storyteller :: "Theme \<Rightarrow> jstring option \<Rightarrow> jstring option \<Rightarrow> jstring" where
  "bulletStyle_Storyteller theme accentColor textColorOverride =
     orS accentColor
       (orS textColorOverride (if theme = DARK then str ''#cbd5e1'' else str ''#475569''))"

definition renderLine_Storyteller ::
  "Theme \<Rightarrow> jstring option \<Rightarrow> rat \<Rightarrow> rat \<Rightarrow> rat \<Rightarrow> jstring option \<Rightarrow> TextAlignment \<Rightarrow> jstring \<Rightarrow> block" where
  "renderLine_Storyteller theme accentColor fontScale lineHeight paragraphGap textColorOverride textAlignment line =
     (let textColor = orS textColorOverride (if theme = DARK then str ''#F3F4F6'' else str ''#111827'');
          headingColor = orS textColorOverride (if theme = DARK then str ''#FFFFFF'' else str ''#000000'');
          bulletColor = bulletStyle_Storyteller theme accentColor textColorOverride;
          h1Size = 72 * fontScale;
          h2Size = 48 * fontScale;
          bodySize = 36 * fontScale;
          paragraphSpacing = paragraphGap * 16;
          trimmed = trim line
      in if startsWith line (str ''# '') then
           H1 [(''fontSize'', Px h1Size), (''lineHeight'', Num lineHeight),
               (''marginBottom'', Px paragraphSpacing), (''color'', Colour headingColor),
               (''textAlign'', Align textAlignment)]
              (parseInline_Storyteller (sliceFrom line 2) theme accentColor)
         else if startsWith line (str ''## '') then
           H2 [(''fontSize'', Px h2Size), (''lineHeight'', Num lineHeight),
               (''marginBottom'', Px (paragraphSpacing * (3 / 4))), (''color'', Colour headingColor),
               (''textAlign'', Align textAlignment)]
              (parseInline_Storyteller (sliceFrom line 3) theme accentColor)
         else if startsWith trimmed (str ''- '') then
           BulletItem (listClasses textAlignment)
             [(''marginBottom'', Px (paragraphSpacing * (1 / 2)))]
             [9679] [(''color'', Colour bulletColor), (''fontSize'', Px bodySize)]
             [(''fontSize'', Px bodySize), (''lineHeight'', Num lineHeight), (''color'', Colour textColor)]
             (parseInline_Storyteller (sliceFrom line 2) theme accentColor)
         else if testNumbered trimmed then
           NumberedItem (listClasses textAlignment)
             [(''marginBottom'', Px (paragraphSpacing * (1 / 2)))]
             (case matchDigits trimmed of Some number \<Rightarrow> number | None \<Rightarrow> [])
             [(''color'', Colour bulletColor), (''fontSize'', Px bodySize)]
             [(''fontSize'', Px bodySize), (''lineHeight'', Num lineHeight), (''color'', Colour textColor)]
             (parseInline_Storyteller (replaceNumbered trimmed) theme accentColor)
         else if trimmed = [] then
           Spacer [(''height'', Px (paragraphSpacing * (1 / 2)))]
         else
           Paragraph [(''fontSize'', Px bodySize), (''lineHeight'', Num lineHeight),
                      (''marginBottom'', Px paragraphSpacing), (''color'', Colour textColor),
                      (''textAlign'', Align textAlignment)]
                     (parseInline_Storyteller line theme accentColor))"

definition renderMarkdown_Storyteller ::
  "jstring \<Rightarrow> Theme \<Rightarrow> jstring option \<Rightarrow> rat \<Rightarrow> rat \<Rightarrow> rat \<Rightarrow> jstring option \<Rightarrow> TextAlignment
     \<Rightarrow> block list" where
  "renderMarkdown_Storyteller text theme accentColor fontScale lineHeight paragraphGap textColorOverride textAlignment =
     map (renderLine_Storyteller theme accentColor fontScale lineHeight paragraphGap textColorOverride textAlignment)
         (splitOn 10 text)"

text \<open>
  \<open>renderMarkdown\<close> of \<^verbatim>\<open>LessonSlide.tsx\<close>: as the Storyteller one, without a
  text-colour override.
\<close>

definition renderLine_Lesson ::
  "Theme \<Rightarrow> jstring option \<Rightarrow> rat \<Rightarrow> rat \<Rightarrow> rat \<Rightarrow> TextAlignment \<Rightarrow> jstring \<Rightarrow> block" where
  "renderLine_Lesson theme accentColor fontScale lineHeight paragraphGap textAlignment line =
     (let textColor = (if theme = DARK then str ''#F3F4F6'' else str ''#111827'');
          headingColor = (if theme = DARK then str ''#FFFFFF'' else str ''#000000'');
          bulletColor = orS accentColor (if theme = DARK then str ''#cbd5e1'' else str ''#475569'');
          h1Size = 72 * fontScale;
          h2Size = 48 * fontScale;
          bodySize = 36 * fontScale;
          paragraphSpacing = paragraphGap * 16;
          trimmed = trim line
      in if startsWith line (str ''# '') then
           H1 [(''fontSize'', Px h1Size), (''lineHeight'', Num lineHeight),
               (''marginBottom'', Px paragraphSpacing), (''color'', Colour headingColor),
               (''textAlign'', Align textAlignment)]
              (parseInline_Lesson (sliceFrom line 2) theme accentColor)
         else if startsWith line (str ''## '') then
           H2 [(''fontSize'', Px h2Size), (''lineHeight'', Num lineHeight),
               (''marginBottom'', Px (paragraphSpacing * (3 / 4))), (''color'', Colour headingColor),
               (''textAlign'', Align textAlignment)]
              (parseInline_Lesson (sliceFrom line 3) theme accentColor)
         else if startsWith trimmed (str ''- '') then
           BulletItem (listClasses textAlignment)
             [(''marginBottom'', Px (paragraphSpacing * (1 / 2)))]
             [9679] [(''color'', Colour bulletColor), (''fontSize'', Px bodySize)]
             [(''fontSize'', Px bodySize), (''lineHeight'', Num lineHeight), (''color'', Colour textColor)]
             (parseInline_Lesson (sliceFrom line 2) theme accentColor)
         else if testNumbered trimmed then
           NumberedItem (listClasses textAlignment)
             [(''marginBottom'', Px (paragraphSpacing * (1 / 2)))]
             (case matchDigits trimmed of Some number \<Rightarrow> number | None \<Rightarrow> [])
             [(''color'', Colour bulletColor), (''fontSize'', Px bodySize)]
             [(''fontSize'', Px bodySize), (''lineHeight'', Num lineHeight), (''color'', Colour textColor)]
             (parseInline_Lesson (replaceNumbered trimmed) theme accentColor)
         else if trimmed = [] then
           Spacer [(''height'', Px (paragraphSpacing * (1 / 2)))]
         else
           Paragraph [(''fontSize'', Px bodySize), (''lineHeight'', Num lineHeight),
                      (''marginBottom'', Px paragraphSpacing), (''color'', Colour textColor),
                      (''textAlign'', Align textAlignment)]
                     (parseInline_Lesson line theme accentColor))"

definition renderMarkdown_Lesson ::
  "jstring \<Rightarrow> Theme \<Rightarrow> jstring option \<Rightarrow> rat \<Rightarrow> rat \<Rightarrow> rat \<Rightarrow> TextAlignment \<Rightarrow> block list" where
  "renderMarkdown_Lesson text theme accentColor fontScale lineHeight paragraphGap textAlignment =
     map (renderLine_Lesson theme accentColor fontScale lineHeight paragraphGap textAlignment)
         (splitOn 10 text)"

section \<open>Title/body splitter\<close>

text \<open>
  \<open>splitContentByHeaders\<close>, the same function in \<^verbatim>\<open>TwitterSlide.tsx\<close> and in
  \<^verbatim>\<open>LessonSlide.tsx\<close>. The loop state is the two arrays and the flag
  \<open>foundNonHeader\<close>; \<open>splitStep\<close> is one iteration, \<open>isTitleLine\<close> the test on the
  trimmed line.
\<close>

record SplitContent =
  titleLines :: jstring
  bodyLines :: jstring

definition isTitleLine :: "jstring \<Rightarrow> bool" where
  "isTitleLine line =
     (let trimmed = trim line
      in startsWith trimmed (str ''# '') \<or> startsWith trimmed (str ''## '') \<or> trimmed = [])"

definition splitStep ::
  "jstring list \<times> jstring list \<times> bool \<Rightarrow> jstring \<Rightarrow> jstring list \<times> jstring list \<times> bool" where
  "splitStep st line =
     (case st of (titleAcc, bodyAcc, foundNonHeader) \<Rightarrow>
        if \<not> foundNonHeader \<and> isTitleLine line
        then (titleAcc @ [line], bodyAcc, foundNonHeader)
        else (titleAcc, bodyAcc @ [line], True))"

definition splitContentByHeaders :: "jstring \<Rightarrow> SplitContent" where
  "splitContentByHeaders content =
     (case foldl splitStep ([], [], False) (splitOn 10 content) of
        (titleAcc, bodyAcc, foundNonHeader) \<Rightarrow>
          \<lparr>titleLines = joinWith 10 titleAcc, bodyLines = joinWith 10 bodyAcc\<rparr>)"

section \<open>Data model\<close>

text \<open>
  The types of \<^verbatim>\<open>types.ts\<close>. An optional field (\<^verbatim>\<open>field?: T\<close>) is an \<open>option\<close>, with
  \<open>None\<close> for \<^verbatim>\<open>undefined\<close>. The content layout is kept as the string that arrives at
  run time, so that a value outside \<^verbatim>\<open>'default' | 'image-after-title' | 'image-first'\<close>
  can be given to the composer. The fields of the global layout settings are
  optional as well: the components read each of them with
  \<^verbatim>\<open>layoutSettings?.field ?? default\<close>, which accepts a settings object that lacks it.
  Several records have fields of the same name; they are told apart by the record's
  name (\<open>Slide.contentPadding\<close>, \<open>LayoutSettings.contentPadding\<close>). The fields
  \<^verbatim>\<open>id\<close> and \<^verbatim>\<open>type\<close> of a slide are \<open>slideId\<close> and \<open>slideType\<close> here.
\<close>

datatype SlideType = COVER | CONTENT | CTA

datatype FontStyle = MODERN | SERIF | TECH

record LayoutSettings =
  contentPadding :: "rat option"
  imageCanvasOffset :: "rat option"
  imageMargin :: "rat option"
  textLineHeight :: "rat option"
  paragraphGap :: "rat option"
  textAlignment :: "TextAlignment option"

record Profile =
  name :: jstring
  handle :: jstring
  avatarUrl :: jstring

record Slide =
  slideId :: jstring
  slideType :: SlideType
  content :: jstring
  imageUrl :: "jstring option"
  showImage :: bool
  imagePrompt :: "jstring option"
  imageScale :: "rat option"
  overlayImage :: "bool option"
  imageOffsetY :: "rat option"
  gradientHeight :: "rat option"
  fontStyle :: "FontStyle option"
  fontScale :: "rat option"
  contentLayout :: "jstring option"
  showBackgroundImage :: "bool option"
  backgroundImageUrl :: "jstring option"
  backgroundOverlayColor :: "jstring option"
  backgroundOverlayOpacity :: "rat option"
  contentPadding :: "rat option"
  imageCanvasOffset :: "rat option"
  imageMargin :: "rat option"
  textLineHeight :: "rat option"
  paragraphGap :: "rat option"
  backgroundTextColor :: "jstring option"
  theme :: "Theme option"
  imageTextSpacing :: "rat option"
  textAlignment :: "TextAlignment option"

text \<open>
  The properties of the three slide components (\<^verbatim>\<open>TwitterSlideProps\<close>,
  \<^verbatim>\<open>StorytellerSlideProps\<close>, \<^verbatim>\<open>LessonSlideProps\<close>: the same fields). A property with a
  default in the component's parameter list (\<^verbatim>\<open>headerScale = 1.0\<close>,
  \<^verbatim>\<open>forExport = false\<close>, \<^verbatim>\<open>showVerifiedBadge = true\<close>, \<^verbatim>\<open>fontStyle = 'MODERN'\<close>,
  \<^verbatim>\<open>fontScale = 1.0\<close>) takes it when the caller leaves it undefined.
\<close>

record Props =
  slide :: Slide
  profile :: Profile
  index :: int
  total :: int
  showSlideNumbers :: bool
  headerScale :: "rat option"
  theme :: Theme
  forExport :: "bool option"
  showVerifiedBadge :: "bool option"
  accentColor :: "jstring option"
  fontStyle :: "FontStyle option"
  fontScale :: "rat option"
  layoutSettings :: "LayoutSettings option"

section \<open>Layout settings resolver\<close>

text \<open>
  \<open>defaultLayoutSettings\<close> is the object literal that each component declares (it
  has these five fields and no text alignment). The effective values are the lines
  \<^verbatim>\<open>slide.f ?? layoutSettings?.f ?? defaultLayoutSettings.f\<close>, the same in the three
  components (the Storyteller and Lesson components compute the padding, the line
  height, the paragraph gap and the alignment only).
\<close>

record DefaultLayoutSettings =
  contentPadding :: rat
  imageCanvasOffset :: rat
  imageMargin :: rat
  textLineHeight :: rat
  paragraphGap :: rat

definition defaultLayoutSettings :: DefaultLayoutSettings where
  "defaultLayoutSettings =
     \<lparr>DefaultLayoutSettings.contentPadding = 64,
      DefaultLayoutSettings.imageCanvasOffset = 0,
      DefaultLayoutSettings.imageMargin = 0,
      DefaultLayoutSettings.textLineHeight = 3 / 2,
      DefaultLayoutSettings.paragraphGap = 1\<rparr>"

text \<open>\<^verbatim>\<open>layoutSettings?.f\<close>: undefined when there are no global settings.\<close>

definition optField :: "'r option \<Rightarrow> ('r \<Rightarrow> 'a option) \<Rightarrow> 'a option" where
  "optField r f = (case r of None \<Rightarrow> None | Some x \<Rightarrow> f x)"

definition effectiveContentPadding :: "Slide \<Rightarrow> LayoutSettings option \<Rightarrow> rat" where
  "effectiveContentPadding s ls =
     nullish (Slide.contentPadding s)
       (nullish (optField ls LayoutSettings.contentPadding)
          (DefaultLayoutSettings.contentPadding defaultLayoutSettings))"

definition effectiveImageCanvasOffset :: "Slide \<Rightarrow> LayoutSettings option \<Rightarrow> rat" where
  "effectiveImageCanvasOffset s ls =
     nullish (Slide.imageCanvasOffset s)
       (nullish (optField ls LayoutSettings.imageCanvasOffset)
          (DefaultLayoutSettings.imageCanvasOffset defaultLayoutSettings))"

definition effectiveImageMargin :: "Slide \<Rightarrow> LayoutSettings option \<Rightarrow> rat" where
  "effectiveImageMargin s ls =
     nullish (Slide.imageMargin s)
       (nullish (optField ls LayoutSettings.imageMargin)
          (DefaultLayoutSettings.imageMargin defaultLayoutSettings))"

definition effectiveLineHeight :: "Slide \<Rightarrow> LayoutSettings option \<Rightarrow> rat" where
  "effectiveLineHeight s ls =
     nullish (Slide.textLineHeight s)
       (nullish (optField ls LayoutSettings.textLineHeight)
          (DefaultLayoutSettings.textLineHeight defaultLayoutSettings))"

definition effectiveParagraphGap :: "Slide \<Rightarrow> LayoutSettings option \<Rightarrow> rat" where
  "effectiveParagraphGap s ls =
     nullish (Slide.paragraphGap s)
       (nullish (optField ls LayoutSettings.paragraphGap)
          (DefaultLayoutSettings.paragraphGap defaultLayoutSettings))"

definition effectiveTextAlignment :: "Slide \<Rightarrow> LayoutSettings option \<Rightarrow> TextAlignment" where
  "effectiveTextAlignment s ls =
     nullish (Slide.textAlignment s) (nullish (optField ls LayoutSettings.textAlignment) left)"

text \<open>
  The font settings: \<^verbatim>\<open>slide.fontStyle || fontStyle\<close> (every font style is a non-empty
  string, hence truthy) and
  \<^verbatim>\<open>slide.fontScale !== undefined ? slide.fontScale : fontScale\<close>, where \<open>fontStyle\<close> and
  \<open>fontScale\<close> are the component's properties with their defaults.
\<close>

definition effectiveFontStyle :: "Props \<Rightarrow> FontStyle" where
  "effectiveFontStyle p =
     nullish (Slide.fontStyle (slide p)) (nullish (Props.fontStyle p) MODERN)"

definition effectiveFontScale :: "Props \<Rightarrow> rat" where
  "effectiveFontScale p =
     nullish (Slide.fontScale (slide p)) (nullish (Props.fontScale p) 1)"

text \<open>
  The image scale, \<^verbatim>\<open>slide.imageScale || 50\<close> in the Twitter and Lesson components and
  \<^verbatim>\<open>slide.imageScale || 45\<close> in the Storyteller one: \<^verbatim>\<open>||\<close> also replaces a zero.
  There is no global image scale.
\<close>

definition imageScale_Twitter :: "Slide \<Rightarrow> rat" where
  "imageScale_Twitter s = orN (imageScale s) 50"

definition imageScale_Storyteller :: "Slide \<Rightarrow> rat" where
  "imageScale_Storyteller s = orN (imageScale s) 45"

definition imageScale_Lesson :: "Slide \<Rightarrow> rat" where
  "imageScale_Lesson s = orN (imageScale s) 50"

text \<open>
  \<open>getFontFamily\<close>; the CSS value is the list of these families, in this order.
  \<^verbatim>\<open>MODERN\<close> is also the \<^verbatim>\<open>default\<close> branch of the switch.
\<close>

definition getFontFamily :: "FontStyle \<Rightarrow> string list" where
  "getFontFamily style =
     (case style of
        SERIF \<Rightarrow> [''Playfair Display'', ''Georgia'', ''serif'']
      | TECH \<Rightarrow> [''JetBrains Mono'', ''Fira Code'', ''monospace'']
      | MODERN \<Rightarrow> [''system-ui'', ''-apple-system'', ''BlinkMacSystemFont'', ''Segoe UI'',
                   ''Roboto'', ''sans-serif''])"

text \<open>The background-image settings, the same lines in the three components.\<close>

definition showBackground :: "Slide \<Rightarrow> bool" where
  "showBackground s = (truthyB (showBackgroundImage s) \<and> truthyS (backgroundImageUrl s))"

definition bgOverlayColor :: "Slide \<Rightarrow> Theme \<Rightarrow> jstring" where
  "bgOverlayColor s th =
     orS (backgroundOverlayColor s) (if th = DARK then str ''#000000'' else str ''#FFFFFF'')"

definition bgOverlayOpacity :: "Slide \<Rightarrow> rat" where
  "bgOverlayOpacity s = nullish (backgroundOverlayOpacity s) 50"

definition textColorOverride :: "Slide \<Rightarrow> jstring option" where
  "textColorOverride s =
     (if showBackground s \<and> truthyS (backgroundTextColor s) then backgroundTextColor s else None)"

section \<open>Visual tree\<close>

text \<open>
  What a component returns. An element has a role (which element of the source it
  is), the z-index of its class (\<^verbatim>\<open>z-0\<close>, \<^verbatim>\<open>z-[1]\<close>, \<^verbatim>\<open>z-[2]\<close>, \<^verbatim>\<open>z-10\<close>, \<^verbatim>\<open>z-20\<close>; \<open>None\<close>
  when it has none), its transition classes, its other classes that depend on the
  input, its inline style and its children. An image has its source, whether it
  carries \<^verbatim>\<open>crossOrigin="anonymous"\<close>, its transition classes, its other input-dependent
  classes and its style. Classes that are the same for every input, and wrappers that
  have nothing else, are left out. A child that the source renders as \<^verbatim>\<open>null\<close> or
  \<^verbatim>\<open>false\<close> is absent from the list of children.
\<close>

datatype role =
    Root | BackgroundImage | ColorOverlay | MainContent | Header | NameColumn | NameRow
  | ProfileName | ProfileHandle | ContentArea | Illustration | ImageFrame | Placeholder
  | TextContent | TitleSection | BodySection | Footer | Pagination | Branding
  | GradientOverlay | CoverImage | Inner

datatype elem =
    Elem role "nat option" string "string list" style "elem list"
  | Img jstring bool string "string list" style
  | Markdown "block list"
  | Text jstring
  | PageNumber int int

definition child :: "elem option \<Rightarrow> elem list" where
  "child e = (case e of None \<Rightarrow> [] | Some x \<Rightarrow> [x])"

definition onlyIf :: "bool \<Rightarrow> 'a list \<Rightarrow> 'a list" where
  "onlyIf c xs = (if c then xs else [])"

text \<open>
  \<^verbatim>\<open>{...(url?.startsWith('data:') ? {} : { crossOrigin: 'anonymous' })}\<close>: the attribute is
  set unless the source is a data URI.
\<close>

definition crossOrigin :: "jstring option \<Rightarrow> bool" where
  "crossOrigin url = (case url of None \<Rightarrow> True | Some u \<Rightarrow> \<not> startsWith u (str ''data:''))"

definition verifiedBadgeUrl :: jstring where
  "verifiedBadgeUrl = str ''https://upload.wikimedia.org/wikipedia/commons/thumb/e/e4/Twitter_Verified_Badge.svg/1200px-Twitter_Verified_Badge.svg.png''"

text \<open>The background image and its colour overlay, the same in the three components.\<close>

definition backgroundLayers :: "Slide \<Rightarrow> Theme \<Rightarrow> elem list" where
  "backgroundLayers s th =
     [Elem BackgroundImage (Some 0) [] [] []
        [Img (orS (backgroundImageUrl s) []) (crossOrigin (backgroundImageUrl s)) [] [] []],
      Elem ColorOverlay (Some 1) [] []
        [(''backgroundColor'', Colour (bgOverlayColor s th)),
         (''opacity'', Num (bgOverlayOpacity s / 100))] []]"

section \<open>Feed-text template (\<^verbatim>\<open>TwitterSlide.tsx\<close>)\<close>

text \<open>
  The local values of the component that more than one of its render functions
  reads. The theme is the component's \<open>theme\<close> property.
\<close>

definition textHeightPercent_Twitter :: "Slide \<Rightarrow> rat" where
  "textHeightPercent_Twitter s = (if showImage s then 100 - imageScale_Twitter s else 100)"

definition imageHeightPercent_Twitter :: "Slide \<Rightarrow> rat" where
  "imageHeightPercent_Twitter s = (if showImage s then imageScale_Twitter s else 0)"

definition imageOffsetY_of :: "Slide \<Rightarrow> rat" where
  "imageOffsetY_of s = nullish (imageOffsetY s) 50"

definition contentLayout_Twitter :: "Slide \<Rightarrow> jstring" where
  "contentLayout_Twitter s = orS (contentLayout s) (str ''default'')"

text \<open>
  \<open>renderImage\<close>: nothing when the slide shows no image; otherwise the illustration
  region, which holds the image when there is a URL and the dashed placeholder with
  the text \<^verbatim>\<open>Generating...\<close> when there is none.
\<close>

definition renderImage_Twitter :: "Props \<Rightarrow> elem option" where
  "renderImage_Twitter p =
     (let s = slide p;
          th = Props.theme p;
          borderColor = (if th = DARK then ''border-gray-800'' else ''border-gray-100'');
          imagePlaceholderBg = (if th = DARK then ''bg-gray-900'' else ''bg-gray-50'');
          imagePlaceholderBorder = (if th = DARK then ''border-gray-800'' else ''border-gray-200'');
          effectiveImageCanvasOffset = effectiveImageCanvasOffset s (layoutSettings p);
          effectiveImageMargin = effectiveImageMargin s (layoutSettings p);
          imageHeightPercent = imageHeightPercent_Twitter s;
          hasOffset = (effectiveImageCanvasOffset \<noteq> 0);
          adjustedHeight = (if hasOffset then CalcPctPx imageHeightPercent effectiveImageCanvasOffset
                            else Pct imageHeightPercent)
      in if \<not> showImage s then None
         else Some
           (Elem Illustration None ''transition-all duration-300 ease-in-out'' []
              ([(''height'', adjustedHeight)]
               @ onlyIf (effectiveImageMargin > 0) [(''padding'', ZeroPx effectiveImageMargin)]
               @ onlyIf (effectiveImageCanvasOffset > 0)
                   [(''marginBottom'', Px (- effectiveImageCanvasOffset))])
              [if truthyS (imageUrl s) then
                 Elem ImageFrame None [] [borderColor]
                   (onlyIf hasOffset [(''height'', CalcFullMinusPx effectiveImageCanvasOffset)]
                    @ [(''flexShrink'', Num 0)])
                   [Img (orS (imageUrl s) []) (crossOrigin (imageUrl s)) [] []
                      [(''objectPosition'', CenterPct (imageOffsetY_of s))]]
               else
                 Elem Placeholder None [] [imagePlaceholderBg, imagePlaceholderBorder] []
                   [Text (str ''Generating...'')]]))"

text \<open>\<open>renderTextContent\<close>: the markdown of \<open>content\<close> in a box of the given height.\<close>

definition renderMarkdownWith_Twitter :: "Props \<Rightarrow> jstring \<Rightarrow> elem" where
  "renderMarkdownWith_Twitter p text =
     Markdown (renderMarkdown_Twitter text (Props.theme p) (effectiveFontScale p)
                 (effectiveLineHeight (slide p) (layoutSettings p))
                 (effectiveParagraphGap (slide p) (layoutSettings p))
                 (textColorOverride (slide p))
                 (effectiveTextAlignment (slide p) (layoutSettings p)))"

definition renderTextContent_Twitter :: "Props \<Rightarrow> jstring \<Rightarrow> rat \<Rightarrow> elem" where
  "renderTextContent_Twitter p text heightPercent =
     Elem TextContent None ''transition-all duration-300 ease-in-out'' []
       [(''height'', Pct heightPercent)]
       [renderMarkdownWith_Twitter p text]"

text \<open>
  \<open>renderMainContent\<close>: the switch on the content layout. Its last branch is
  \<^verbatim>\<open>case 'default': default:\<close>, which every other string reaches. The title and body
  of the second branch are computed by the component only for that layout (and are
  empty strings otherwise); a section is rendered when its text has something other
  than white space.
\<close>

definition renderMainContent_Twitter :: "Props \<Rightarrow> elem" where
  "renderMainContent_Twitter p =
     (let s = slide p;
          contentLayout = contentLayout_Twitter s;
          textHeightPercent = textHeightPercent_Twitter s;
          split = (if contentLayout = str ''image-after-title''
                   then splitContentByHeaders (content s)
                   else \<lparr>titleLines = [], bodyLines = []\<rparr>)
      in if contentLayout = str ''image-first'' then
           Elem ContentArea None [] [] []
             (child (renderImage_Twitter p)
              @ [renderTextContent_Twitter p (content s)
                   (if showImage s then textHeightPercent else 100)])
         else if contentLayout = str ''image-after-title'' then
           (let imageTextSpacing = nullish (imageTextSpacing s) 16
            in Elem ContentArea None [] [] []
                 (onlyIf (trim (titleLines split) \<noteq> [])
                    [Elem TitleSection None [] [] []
                       [renderMarkdownWith_Twitter p (titleLines split)]]
                  @ child (renderImage_Twitter p)
                  @ onlyIf (trim (bodyLines split) \<noteq> [])
                      [Elem BodySection None [] [] [(''paddingTop'', Px imageTextSpacing)]
                         [renderMarkdownWith_Twitter p (bodyLines split)]]))
         else
           Elem ContentArea None [] [] []
             ([renderTextContent_Twitter p (content s) textHeightPercent]
              @ child (renderImage_Twitter p)))"

text \<open>
  The component: the root; under it the background image (z-index 0) and its colour
  overlay (z-index 1) when the slide has a background; then the main container
  (z-index 10) with the profile header, the main content and, when slide numbers are
  shown, the pagination badge.
\<close>

definition header_Twitter :: "Props \<Rightarrow> elem" where
  "header_Twitter p =
     (let th = Props.theme p;
          headerScale = nullish (headerScale p) 1;
          showVerifiedBadge = nullish (showVerifiedBadge p) True;
          avatarSize = 130 * headerScale;
          nameSize = 48 * headerScale;
          handleSize = 32 * headerScale;
          verifiedSize = 40 * headerScale;
          gapSize = 24 * headerScale;
          marginBottom = 40 * headerScale;
          nameColor = (if th = DARK then ''text-white'' else ''text-gray-900'');
          handleColor = (if th = DARK then ''text-gray-500'' else ''text-gray-500'');
          borderColor = (if th = DARK then ''border-gray-800'' else ''border-gray-100'')
      in Elem Header None [] []
           [(''marginBottom'', Px marginBottom), (''gap'', Px gapSize)]
           [Img (orS (Some (avatarUrl (profile p))) (str ''https://picsum.photos/200''))
              (crossOrigin (Some (avatarUrl (profile p)))) [] [borderColor]
              [(''width'', Px avatarSize), (''height'', Px avatarSize)],
            Elem NameColumn None [] [] []
              [Elem NameRow None [] [] [(''gap'', Px (gapSize * (1 / 2)))]
                 ([Elem ProfileName None [] [nameColor]
                     [(''fontSize'', Px nameSize), (''lineHeight'', Num (3 / 2)),
                      (''paddingBottom'', Px 4)]
                     [Text (name (profile p))]]
                  @ onlyIf showVerifiedBadge
                      [Img verifiedBadgeUrl True [] []
                         [(''width'', Px verifiedSize), (''height'', Px verifiedSize),
                          (''marginTop'', Px (- (verifiedSize * (1 / 10))))]]),
               Elem ProfileHandle None [] [handleColor]
                 [(''fontSize'', Px handleSize), (''lineHeight'', Num (13 / 10)),
                  (''marginTop'', Px (4 * headerScale))]
                 [Text (str ''@'' @ handle (profile p))]]])"

definition footer_Twitter :: "Props \<Rightarrow> elem" where
  "footer_Twitter p =
     (let th = Props.theme p;
          footerBg = (if th = DARK then ''bg-gray-900'' else ''bg-gray-100'');
          footerText = (if th = DARK then ''text-gray-400'' else ''text-gray-500'')
      in Elem Footer None [] [] []
           [Elem Pagination None [] [footerBg, footerText]
              (onlyIf (truthyS (accentColor p)) [(''color'', Colour (orS (accentColor p) []))])
              [PageNumber (index p + 1) (total p)]])"

definition TwitterSlide :: "Props \<Rightarrow> elem" where
  "TwitterSlide p =
     (let s = slide p;
          th = Props.theme p;
          forExport = nullish (forExport p) False;
          bgColor = (if th = DARK then str ''#000000'' else str ''#FFFFFF'');
          fontFamily = getFontFamily (effectiveFontStyle p)
      in Elem Root None (if forExport then [] else ''transition-colors duration-300'') []
           [(''backgroundColor'', Colour bgColor), (''fontFamily'', FontFamily fontFamily)]
           (onlyIf (showBackground s) (backgroundLayers s th)
            @ [Elem MainContent (Some 10) [] []
                 [(''padding'', Px (effectiveContentPadding s (layoutSettings p)))]
                 ([header_Twitter p, renderMainContent_Twitter p]
                  @ onlyIf (showSlideNumbers p) [footer_Twitter p])]))"

section \<open>Cinematic-image template (the Storyteller component)\<close>

text \<open>
  The two modes: \<open>isOverlay\<close> when the slide shows an image and \<open>overlayImage\<close> is
  not \<open>false\<close>, \<open>showSplit\<close> when it shows an image in the other case.
\<close>

definition isOverlay :: "Slide \<Rightarrow> bool" where
  "isOverlay s = (showImage s \<and> overlayImage s \<noteq> Some False)"

definition showSplit :: "Slide \<Rightarrow> bool" where
  "showSplit s = (showImage s \<and> \<not> isOverlay s)"

definition gradientHeight_of :: "Slide \<Rightarrow> rat" where
  "gradientHeight_of s = nullish (gradientHeight s) 60"

definition overlayTextPaddingTop :: "Slide \<Rightarrow> rat" where
  "overlayTextPaddingTop s = max 0 (imageScale_Storyteller s - 12)"

text \<open>
  The illustration of the overlay mode and of the split mode. Both are rendered
  only when the slide has an image URL; there is no other branch.
\<close>

definition overlayIllustration_Storyteller :: "Props \<Rightarrow> elem" where
  "overlayIllustration_Storyteller p =
     (let s = slide p;
          forExport = nullish (forExport p) False
      in Elem Illustration (Some 2) [] []
           [(''height'', Pct (imageScale_Storyteller s)), (''overflow'', Keyword ''hidden'')]
           [Img (orS (imageUrl s) []) (crossOrigin (imageUrl s))
              (if forExport then [] else ''transition-all duration-300'') []
              [(''objectFit'', Keyword ''cover''),
               (''objectPosition'', CenterPct (imageOffsetY_of s))],
            Elem GradientOverlay None [] []
              [(''height'', Pct (gradientHeight_of s)),
               (''background'',
                  (if Props.theme p = DARK then Gradient (10, 10, 10, 0) (10, 10, 10, 1)
                   else Gradient (255, 255, 255, 0) (255, 255, 255, 1))),
               (''pointerEvents'', Keyword ''none'')]
              []])"

definition splitIllustration_Storyteller :: "Props \<Rightarrow> elem" where
  "splitIllustration_Storyteller p =
     (let s = slide p;
          forExport = nullish (forExport p) False
      in Elem Illustration (Some 2) [] []
           [(''height'', Pct (imageScale_Storyteller s)), (''overflow'', Keyword ''hidden''),
            (''flexShrink'', Num 0)]
           [Img (orS (imageUrl s) []) (crossOrigin (imageUrl s))
              (if forExport then [] else ''transition-all duration-300'') []
              [(''objectFit'', Keyword ''cover''),
               (''objectPosition'', CenterPct (imageOffsetY_of s)),
               (''display'', Keyword ''block'')]])"

definition textContent_Storyteller :: "Props \<Rightarrow> elem" where
  "textContent_Storyteller p =
     (let s = slide p;
          effectiveContentPadding = effectiveContentPadding s (layoutSettings p);
          splitTextHeight = 100 - imageScale_Storyteller s
      in Elem TextContent (Some 10) [] [if showSplit s then [] else ''justify-center'']
           [(''height'', (if showSplit s then Pct splitTextHeight else Pct 100)),
            (''paddingTop'',
               (if isOverlay s \<and> truthyS (imageUrl s) then Pct (overlayTextPaddingTop s)
                else if showSplit s then Rem 3 else Keyword ''0'')),
            (''paddingLeft'', Px effectiveContentPadding),
            (''paddingRight'', Px effectiveContentPadding)]
           [Elem Inner None []
              [if \<not> showSplit s then ''flex flex-col justify-center'' else ''false''] []
              [Markdown (renderMarkdown_Storyteller (content s) (Props.theme p) (accentColor p)
                           (effectiveFontScale p)
                           (effectiveLineHeight s (layoutSettings p))
                           (effectiveParagraphGap s (layoutSettings p))
                           (textColorOverride s)
                           (effectiveTextAlignment s (layoutSettings p)))]])"

text \<open>The footer: the branding (always) and the pagination (when slide numbers are shown).\<close>

definition footer_Storyteller :: "Props \<Rightarrow> elem" where
  "footer_Storyteller p =
     (let th = Props.theme p;
          headerScale = nullish (headerScale p) 1;
          showVerifiedBadge = nullish (showVerifiedBadge p) True;
          avatarSize = 64 * headerScale;
          nameSize = 32 * headerScale;
          verifiedSize = 28 * headerScale;
          marginBottom = 60 * headerScale
      in Elem Footer (Some 20) [] [] [(''paddingBottom'', Px marginBottom)]
           ([Elem Branding None [] [] []
               ([Img (orS (Some (avatarUrl (profile p))) (str ''https://picsum.photos/200''))
                   (crossOrigin (Some (avatarUrl (profile p)))) [] []
                   [(''width'', Px avatarSize), (''height'', Px avatarSize)],
                 Elem ProfileHandle None [] [if th = DARK then ''text-white'' else ''text-black'']
                   [(''fontSize'', Px nameSize)]
                   [Text (str ''@'' @ handle (profile p))]]
                @ onlyIf showVerifiedBadge
                    [Img verifiedBadgeUrl True [] []
                       [(''width'', Px verifiedSize), (''height'', Px verifiedSize)]])]
            @ onlyIf (showSlideNumbers p)
                [Elem Pagination None [] [if th = DARK then ''text-white'' else ''text-black''] []
                   [PageNumber (index p + 1) (total p)]]))"

definition StorytellerSlide :: "Props \<Rightarrow> elem" where
  "StorytellerSlide p =
     (let s = slide p;
          th = Props.theme p;
          forExport = nullish (forExport p) False;
          bgColor = (if th = DARK then str ''#0a0a0a'' else str ''#ffffff'');
          fontFamily = getFontFamily (effectiveFontStyle p)
      in Elem Root None (if forExport then [] else ''transition-colors duration-300'') []
           [(''backgroundColor'', Colour bgColor), (''fontFamily'', FontFamily fontFamily)]
           (onlyIf (showBackground s) (backgroundLayers s th)
            @ onlyIf (isOverlay s \<and> truthyS (imageUrl s)) [overlayIllustration_Storyteller p]
            @ onlyIf (showSplit s \<and> truthyS (imageUrl s)) [splitIllustration_Storyteller p]
            @ [textContent_Storyteller p, footer_Storyteller p]))"

section \<open>Lesson template (\<^verbatim>\<open>LessonSlide.tsx\<close>)\<close>

definition isOverlayMode :: "Slide \<Rightarrow> bool" where
  "isOverlayMode s = (overlayImage s \<noteq> Some False)"

definition gradientOpacity :: "Slide \<Rightarrow> rat" where
  "gradientOpacity s =
     (case backgroundOverlayOpacity s of Some v \<Rightarrow> v / 100 | None \<Rightarrow> 1)"

definition isCover :: "Slide \<Rightarrow> bool" where
  "isCover s = (slideType s = COVER)"

definition showCoverImage :: "Slide \<Rightarrow> bool" where
  "showCoverImage s =
     (isCover s \<and> truthyB (showBackgroundImage s) \<and> truthyS (backgroundImageUrl s))"

definition textColor_Lesson :: "Props \<Rightarrow> jstring" where
  "textColor_Lesson p =
     orS (backgroundTextColor (slide p))
       (if Props.theme p = DARK then str ''#FFFFFF'' else str ''#000000'')"

definition renderMarkdownWith_Lesson :: "Props \<Rightarrow> jstring \<Rightarrow> elem" where
  "renderMarkdownWith_Lesson p text =
     Markdown (renderMarkdown_Lesson text (Props.theme p) (accentColor p) (effectiveFontScale p)
                 (effectiveLineHeight (slide p) (layoutSettings p))
                 (effectiveParagraphGap (slide p) (layoutSettings p))
                 (effectiveTextAlignment (slide p) (layoutSettings p)))"

definition renderFooter_Lesson :: "Props \<Rightarrow> elem" where
  "renderFooter_Lesson p =
     (let headerScale = nullish (headerScale p) 1;
          showVerifiedBadge = nullish (showVerifiedBadge p) True;
          avatarSize = 64 * headerScale;
          nameSize = 32 * headerScale;
          verifiedSize = 28 * headerScale;
          footerPaddingBottom = 60 * headerScale
      in Elem Footer (Some 20) [] [] [(''paddingBottom'', Px footerPaddingBottom)]
           ([Elem Branding None [] [] []
               ([Img (orS (Some (avatarUrl (profile p))) (str ''https://picsum.photos/200''))
                   (crossOrigin (Some (avatarUrl (profile p)))) [] []
                   [(''width'', Px avatarSize), (''height'', Px avatarSize)],
                 Elem ProfileHandle None [] []
                   [(''fontSize'', Px nameSize), (''color'', Colour (textColor_Lesson p))]
                   [Text (str ''@'' @ handle (profile p))]]
                @ onlyIf showVerifiedBadge
                    [Img verifiedBadgeUrl True [] []
                       [(''width'', Px verifiedSize), (''height'', Px verifiedSize)]])]
            @ onlyIf (showSlideNumbers p)
                [Elem Pagination None [] [] [(''color'', Colour (textColor_Lesson p))]
                   [PageNumber (index p + 1) (total p)]]))"

text \<open>
  \<open>renderCoverSlide\<close>: the cover shows the slide's background image, full screen
  under a gradient in the overlay mode, as a top band in the split mode.
\<close>

definition coverImg_Lesson :: "Props \<Rightarrow> elem" where
  "coverImg_Lesson p =
     (let s = slide p;
          forExport = nullish (forExport p) False
      in Img (orS (backgroundImageUrl s) []) (crossOrigin (backgroundImageUrl s))
           (if forExport then [] else ''transition-all duration-300'') []
           [(''objectFit'', Keyword ''cover''),
            (''objectPosition'', CenterPct (imageOffsetY_of s))])"

definition renderCoverSlide_Lesson :: "Props \<Rightarrow> elem list" where
  "renderCoverSlide_Lesson p =
     (let s = slide p;
          effectiveContentPadding = effectiveContentPadding s (layoutSettings p);
          footerPaddingBottom = 60 * nullish (headerScale p) 1
      in if isOverlayMode s then
           onlyIf (showCoverImage s)
             [Elem CoverImage (Some 2) [] [] []
                [coverImg_Lesson p,
                 Elem GradientOverlay None [] []
                   [(''top'', Pct (imageScale_Lesson s)),
                    (''height'', Pct (gradientHeight_of s)),
                    (''background'',
                       (if Props.theme p = DARK
                        then Gradient (0, 0, 0, 0) (0, 0, 0, gradientOpacity s)
                        else Gradient (255, 255, 255, 0) (255, 255, 255, gradientOpacity s))),
                    (''pointerEvents'', Keyword ''none'')]
                   []]]
           @ [Elem TextContent (Some 10) [] []
                [(''paddingLeft'', Px effectiveContentPadding),
                 (''paddingRight'', Px effectiveContentPadding),
                 (''paddingBottom'', Px (footerPaddingBottom + 80)),
                 (''top'', Pct (imageOffsetY_of s))]
                [renderMarkdownWith_Lesson p (content s)],
              renderFooter_Lesson p]
         else
           onlyIf (showCoverImage s)
             [Elem CoverImage None [] [] [(''height'', Pct (imageScale_Lesson s))]
                [coverImg_Lesson p]]
           @ [Elem TextContent None [] []
                [(''paddingLeft'', Px effectiveContentPadding),
                 (''paddingRight'', Px effectiveContentPadding),
                 (''paddingTop'', Px (effectiveContentPadding / 2))]
                [renderMarkdownWith_Lesson p (content s)],
              renderFooter_Lesson p])"

text \<open>
  \<open>renderContentWithImage\<close>: the title, the illustration region below it (the image,
  or the placeholder when there is no URL) and the body, in one container of
  z-index 10; then the footer.
\<close>

definition renderContentWithImage_Lesson :: "Props \<Rightarrow> elem list" where
  "renderContentWithImage_Lesson p =
     (let s = slide p;
          th = Props.theme p;
          forExport = nullish (forExport p) False;
          effectiveContentPadding = effectiveContentPadding s (layoutSettings p);
          imageTextSpacing = nullish (imageTextSpacing s) 16;
          split = (if \<not> isCover s \<and> showImage s then splitContentByHeaders (content s)
                   else \<lparr>titleLines = [], bodyLines = []\<rparr>)
      in [Elem MainContent (Some 10) [] []
            [(''paddingLeft'', Px effectiveContentPadding),
             (''paddingRight'', Px effectiveContentPadding),
             (''paddingTop'', Px effectiveContentPadding)]
            (onlyIf (trim (titleLines split) \<noteq> [])
               [Elem TitleSection None [] [] []
                  [renderMarkdownWith_Lesson p (titleLines split)]]
             @ [Elem Illustration None [] [] [(''height'', Pct (imageScale_Lesson s))]
                  [if truthyS (imageUrl s) then
                     Elem ImageFrame None [] [] []
                       [Img (orS (imageUrl s) []) (crossOrigin (imageUrl s))
                          (if forExport then [] else ''transition-all duration-300'') []
                          [(''objectPosition'', CenterPct (imageOffsetY_of s))]]
                   else
                     Elem Placeholder None []
                       [if th = DARK then ''bg-gray-900 border-gray-800''
                        else ''bg-gray-50 border-gray-200''] []
                       [Text (str ''Generating...'')]]]
             @ onlyIf (trim (bodyLines split) \<noteq> [])
                 [Elem BodySection None [] [] [(''paddingTop'', Px imageTextSpacing)]
                    [renderMarkdownWith_Lesson p (bodyLines split)]]),
          renderFooter_Lesson p])"

definition renderContentTextOnly_Lesson :: "Props \<Rightarrow> elem list" where
  "renderContentTextOnly_Lesson p =
     (let s = slide p;
          effectiveContentPadding = effectiveContentPadding s (layoutSettings p)
      in [Elem MainContent (Some 10) [] []
            [(''paddingLeft'', Px effectiveContentPadding),
             (''paddingRight'', Px effectiveContentPadding),
             (''paddingTop'', Px effectiveContentPadding)]
            [Elem TextContent None [] [] [] [renderMarkdownWith_Lesson p (content s)]],
          renderFooter_Lesson p])"

definition LessonSlide :: "Props \<Rightarrow> elem" where
  "LessonSlide p =
     (let s = slide p;
          th = Props.theme p;
          forExport = nullish (forExport p) False;
          bgColor = (if th = DARK then str ''#000000'' else str ''#FFFFFF'');
          fontFamily = getFontFamily (effectiveFontStyle p)
      in Elem Root None (if forExport then [] else ''transition-colors duration-300'') []
           [(''backgroundColor'', Colour bgColor), (''fontFamily'', FontFamily fontFamily)]
           (onlyIf (\<not> isCover s \<and> showBackground s) (backgroundLayers s th)
            @ (if isCover s then renderCoverSlide_Lesson p
               else if showImage s then renderContentWithImage_Lesson p
               else renderContentTextOnly_Lesson p)))"

section \<open>Reading a visual tree\<close>

text \<open>
  The tree without its transition classes: what the two renderings of a slide, for
  the screen and for the export, are compared on.
\<close>

fun eraseTransitions :: "elem \<Rightarrow> elem" where
  "eraseTransitions (Elem r z t cls st kids) = Elem r z [] cls st (map eraseTransitions kids)"
| "eraseTransitions (Img src co t cls st) = Img src co [] cls st"
| "eraseTransitions (Markdown bs) = Markdown bs"
| "eraseTransitions (Text t) = Text t"
| "eraseTransitions (PageNumber i n) = PageNumber i n"

text \<open>Every element of a given role in a tree, in document order.\<close>

fun findRole :: "role \<Rightarrow> elem \<Rightarrow> elem list" where
  "findRole r (Elem r' z t cls st kids) =
     (if r = r' then [Elem r' z t cls st kids] else []) @ concat (map (findRole r) kids)"
| "findRole r (Img src co t cls st) = []"
| "findRole r (Markdown bs) = []"
| "findRole r (Text t) = []"
| "findRole r (PageNumber i n) = []"

text \<open>
  Painting order. The layers of a slide are the elements whose role is one of
  background image, colour overlay, illustration (or cover image), text (text
  content, title section, body section), header and footer. \<open>layersOf\<close> lists the
  layers inside an element in document order. The children of the root are painted
  by stack level: an element without z-index is in the normal flow and is painted
  before every positioned element with a z-index (all z-indices here are
  non-negative), and elements of the same level are painted in document order
  (\<open>sort_key\<close> is stable). A layer painted later is above a layer painted earlier.
\<close>

definition isLayer :: "role \<Rightarrow> bool" where
  "isLayer r =
     (r = BackgroundImage \<or> r = ColorOverlay \<or> r = Illustration \<or> r = CoverImage
      \<or> r = TextContent \<or> r = TitleSection \<or> r = BodySection \<or> r = Header \<or> r = Footer)"

fun layersOf :: "elem \<Rightarrow> role list" where
  "layersOf (Elem r z t cls st kids) =
     (if isLayer r then [r] else []) @ concat (map layersOf kids)"
| "layersOf (Img src co t cls st) = []"
| "layersOf (Markdown bs) = []"
| "layersOf (Text t) = []"
| "layersOf (PageNumber i n) = []"

fun stackLevel :: "elem \<Rightarrow> nat" where
  "stackLevel (Elem r z t cls st kids) = (case z of None \<Rightarrow> 0 | Some n \<Rightarrow> Suc n)"
| "stackLevel (Img src co t cls st) = 0"
| "stackLevel (Markdown bs) = 0"
| "stackLevel (Text t) = 0"
| "stackLevel (PageNumber i n) = 0"

fun paintOrder :: "elem \<Rightarrow> role list" where
  "paintOrder (Elem r z t cls st kids) = concat (map layersOf (sort_key stackLevel kids))"
| "paintOrder (Img src co t cls st) = []"
| "paintOrder (Markdown bs) = []"
| "paintOrder (Text t) = []"
| "paintOrder (PageNumber i n) = []"

text \<open>
  The rank of a layer in the order that the z-indices of the components give:
  background image, colour overlay, content (header, illustration and text), footer.
  \<open>strictRank\<close> also puts the illustration below the text.
\<close>

definition layerRank :: "role \<Rightarrow> nat" where
  "layerRank r =
     (if r = BackgroundImage then 0 else if r = ColorOverlay then 1
      else if r = Footer then 3 else 2)"

definition strictRank :: "role \<Rightarrow> nat" where
  "strictRank r =
     (if r = BackgroundImage then 0 else if r = ColorOverlay then 1
      else if r = Illustration \<or> r = CoverImage then 2
      else if r = Footer then 4 else 3)"

text \<open>A slide and properties with every optional field undefined, to build examples from.\<close>

definition emptySlide :: Slide where
  "emptySlide =
     \<lparr>slideId = [], slideType = CONTENT, content = [], imageUrl = None, showImage = False,
      imagePrompt = None, imageScale = None, overlayImage = None, imageOffsetY = None,
      gradientHeight = None, Slide.fontStyle = None, Slide.fontScale = None,
      contentLayout = None, showBackgroundImage = None, backgroundImageUrl = None,
      backgroundOverlayColor = None, backgroundOverlayOpacity = None,
      Slide.contentPadding = None, Slide.imageCanvasOffset = None, Slide.imageMargin = None,
      Slide.textLineHeight = None, Slide.paragraphGap = None, backgroundTextColor = None,
      Slide.theme = None, imageTextSpacing = None, Slide.textAlignment = None\<rparr>"

definition emptyProps :: Props where
  "emptyProps =
     \<lparr>slide = emptySlide, profile = \<lparr>name = [], handle = [], avatarUrl = []\<rparr>,
      index = 0, total = 1, showSlideNumbers = False, headerScale = None, theme = LIGHT,
      forExport = None, showVerifiedBadge = None, accentColor = None, fontStyle = None,
      fontScale = None, layoutSettings = None\<rparr>"

section \<open>The override cascade as the specification states it\<close>

text \<open>
  Written from the words of the specification, to compare the components' effective
  values with: the per-slide override if present, else the global setting if
  present, else the hard default.
\<close>

definition spec_cascade :: "'a option \<Rightarrow> 'a option \<Rightarrow> 'a \<Rightarrow> 'a" where
  "spec_cascade perSlide global hardDefault =
     (case perSlide of
        Some v \<Rightarrow> v
      | None \<Rightarrow> (case global of Some v \<Rightarrow> v | None \<Rightarrow> hardDefault))"

section \<open>Lemmas about strings and lines\<close>

lemma startsWith_Nil [simp]: "startsWith s [] = True"
  by (simp add: startsWith_def)

lemma startsWith_Nil_Cons [simp]: "startsWith [] (y # ys) = False"
  by (simp add: startsWith_def)

lemma startsWith_Cons_Cons [simp]: "startsWith (x # xs) (y # ys) = (x = y \<and> startsWith xs ys)"
  by (simp add: startsWith_def)

lemma str_Nil [simp]: "str [] = []"
  by (simp add: str_def)

lemma str_Cons [simp]: "str (c # cs) = of_char c # str cs"
  by (simp add: str_def)

lemma trimEnd_Nil [simp]: "trimEnd [] = []"
  by (simp add: trimEnd_def)

lemma trimEnd_Cons:
  "trimEnd (x # xs) = (if isWhiteSpace x \<and> trimEnd xs = [] then [] else x # trimEnd xs)"
  by (simp add: trimEnd_def dropWhile_append)

lemma trim_trimEnd: "trim s = trimEnd (dropWhile isWhiteSpace s)"
  by (simp add: trim_def trimStart_def)

lemma splitOn_nonempty: "splitOn d s \<noteq> []"
  by (induction s) (auto split: list.splits)

lemma splitOn_no_sep: "l \<in> set (splitOn d s) \<Longrightarrow> d \<notin> set l"
proof (induction s arbitrary: l)
  case Nil
  then show ?case by simp
next
  case (Cons c cs)
  show ?case
  proof (cases "c = d")
    case True
    with Cons show ?thesis by auto
  next
    case False
    obtain h t where ht: "splitOn d cs = h # t"
      using splitOn_nonempty [of d cs] by (cases "splitOn d cs") auto
    with False Cons.prems have "l = c # h \<or> l \<in> set t" by simp
    moreover have "d \<notin> set h" using Cons.IH [of h] ht by simp
    moreover have "l \<in> set t \<Longrightarrow> d \<notin> set l" using Cons.IH [of l] ht by simp
    ultimately show ?thesis using False by auto
  qed
qed

lemma splitOn_single: "d \<notin> set l \<Longrightarrow> splitOn d l = [l]"
  by (induction l) auto

lemma splitOn_append_sep: "d \<notin> set l \<Longrightarrow> splitOn d (l @ d # r) = l # splitOn d r"
  by (induction l) auto

lemma splitOn_joinWith:
  "ls \<noteq> [] \<Longrightarrow> (\<And>l. l \<in> set ls \<Longrightarrow> d \<notin> set l) \<Longrightarrow> splitOn d (joinWith d ls) = ls"
proof (induction d ls rule: joinWith.induct)
  case (1 d)
  then show ?case by simp
next
  case (2 d l)
  then show ?case by (simp add: splitOn_single)
next
  case (3 d l v va)
  then show ?case by (simp add: splitOn_append_sep)
qed

lemma foldl_splitStep_found:
  "foldl splitStep (t, b, True) ls = (t, b @ ls, True)"
  by (induction ls arbitrary: b) (simp_all add: splitStep_def)

lemma foldl_splitStep:
  "foldl splitStep (t, b, False) ls =
     (t @ takeWhile isTitleLine ls, b @ dropWhile isTitleLine ls, dropWhile isTitleLine ls \<noteq> [])"
proof (induction ls arbitrary: t)
  case Nil
  then show ?case by simp
next
  case (Cons l ls)
  show ?case
  proof (cases "isTitleLine l")
    case True
    then show ?thesis using Cons.IH [of "t @ [l]"] by (simp add: splitStep_def)
  next
    case False
    then have "splitStep (t, b, False) l = (t, b @ [l], True)"
      by (simp add: splitStep_def)
    with False show ?thesis by (simp add: foldl_splitStep_found)
  qed
qed

lemma splitContentByHeaders_eq:
  "splitContentByHeaders c =
     \<lparr>titleLines = joinWith 10 (takeWhile isTitleLine (splitOn 10 c)),
      bodyLines = joinWith 10 (dropWhile isTitleLine (splitOn 10 c))\<rparr>"
  by (simp add: splitContentByHeaders_def foldl_splitStep)

lemma isTitleLine_Nil: "isTitleLine []"
  by (simp add: isTitleLine_def trim_trimEnd)

lemmas inline_eval =
  splitInline_def matchToken_def matchDelim_def isLineTerminator_def endsWith_def
  slice_def sliceFrom_def relIndex_def

lemma trim_starts_nonspace:
  assumes "\<not> isWhiteSpace c"
  shows "trim (c # cs) = c # trimEnd cs"
  using assms by (simp add: trim_trimEnd trimEnd_Cons)

lemma numbered_parts:
  assumes "ds \<noteq> []" and "\<forall>c\<in>set ds. isDigit c"
  shows "takeWhile isDigit (ds @ 46 # 32 # rest) = ds"
    and "dropWhile isDigit (ds @ 46 # 32 # rest) = 46 # 32 # rest"
proof -
  have nd: "\<not> isDigit 46" by (simp add: isDigit_def)
  show "takeWhile isDigit (ds @ 46 # 32 # rest) = ds"
    using assms(2) nd by (simp add: takeWhile_append2)
  show "dropWhile isDigit (ds @ 46 # 32 # rest) = 46 # 32 # rest"
    using assms(2) nd by (simp add: dropWhile_append2)
qed

lemma numbered_classification:
  assumes tr: "trim line = ds @ str ''. '' @ rest"
    and ne: "ds \<noteq> []" and dig: "\<forall>c\<in>set ds. isDigit c"
  shows "\<not> startsWith line (str ''# '')" and "\<not> startsWith line (str ''## '')"
    and "\<not> startsWith (trim line) (str ''- '')"
    and "testNumbered (trim line)"
    and "matchDigits (trim line) = Some ds"
    and "replaceNumbered (trim line) = rest"
proof -
  obtain d ds' where ds: "ds = d # ds'" using ne by (cases ds) auto
  then have dd: "isDigit d" using dig by simp
  have hash: "\<not> startsWith line (35 # p)" for p
  proof
    assume "startsWith line (35 # p)"
    then obtain as where "line = 35 # as" by (cases line) auto
    moreover have "\<not> isWhiteSpace 35" by (simp add: isWhiteSpace_def)
    ultimately have "trim line = 35 # trimEnd as" by (simp add: trim_starts_nonspace)
    with tr ds have "d = 35" by simp
    with dd show False by (simp add: isDigit_def)
  qed
  show "\<not> startsWith line (str ''# '')" using hash by simp
  show "\<not> startsWith line (str ''## '')" using hash by simp
  show "\<not> startsWith (trim line) (str ''- '')"
    using tr ds dd by (auto simp: isDigit_def)
  have tr': "trim line = ds @ 46 # 32 # rest" using tr by simp
  show tn: "testNumbered (trim line)"
    using ne by (simp add: testNumbered_def tr' numbered_parts [OF ne dig])
  show "matchDigits (trim line) = Some ds"
    using ne by (simp add: matchDigits_def tr' numbered_parts [OF ne dig])
  show "replaceNumbered (trim line) = rest"
    using tn by (simp add: replaceNumbered_def tr' numbered_parts [OF ne dig])
qed

lemma startsWith_take_drop: "startsWith s d \<Longrightarrow> d @ drop (length d) s = s"
proof -
  assume "startsWith s d"
  then have "take (length d) s = d" by (simp only: startsWith_def)
  then have "d @ drop (length d) s = take (length d) s @ drop (length d) s" by (rule_tac arg_cong [where f = "\<lambda>x. x @ drop (length d) s"]) (rule sym)
  then show ?thesis by simp
qed

lemma lazyUntil_text: "lazyUntil d s = Some (body, rest) \<Longrightarrow> body @ d @ rest = s"
proof (induction s arbitrary: body)
  case Nil
  then have "d = []" by (cases d) (simp_all split: if_splits)
  with Nil show ?case by (simp split: if_splits)
next
  case (Cons c cs)
  show ?case
  proof (cases "startsWith (c # cs) d")
    case True
    with Cons.prems have "body = []" "rest = drop (length d) (c # cs)" by simp_all
    with startsWith_take_drop [OF True] show ?thesis by simp
  next
    case False
    with Cons.prems obtain b where b: "lazyUntil d cs = Some (b, rest)" "body = c # b"
      by (auto split: if_splits option.splits)
    from Cons.IH [OF b(1)] b(2) show ?thesis by simp
  qed
qed

lemma matchDelim_text: "matchDelim d s = Some (tok, rest) \<Longrightarrow> tok @ rest = s"
proof -
  assume m: "matchDelim d s = Some (tok, rest)"
  then have sw: "startsWith s d"
    unfolding matchDelim_def by (cases "startsWith s d") simp_all
  with m obtain body where lu: "lazyUntil d (drop (length d) s) = Some (body, rest)"
    and tok: "tok = d @ body @ d"
    unfolding matchDelim_def by (cases "lazyUntil d (drop (length d) s)") auto
  from lazyUntil_text [OF lu] have "d @ body @ d @ rest = d @ drop (length d) s" by simp
  with startsWith_take_drop [OF sw] tok show ?thesis by simp
qed

lemma matchToken_text: "matchToken s = Some (tok, rest) \<Longrightarrow> tok @ rest = s"
  unfolding matchToken_def
  by (auto split: option.splits dest: matchDelim_text)

lemma splitFrom_concat: "concat (splitFrom acc s) = acc @ s"
proof (induction acc s rule: splitFrom.induct)
  case (1 acc)
  then show ?case by simp
next
  case (2 acc c cs)
  show ?case
  proof (cases "matchToken (c # cs)")
    case None
    with 2 show ?thesis by simp
  next
    case (Some r)
    obtain tok rest where r: "r = (tok, rest)" by (cases r)
    from 2(2) [OF Some [unfolded r] refl] matchToken_text [OF Some [unfolded r]] Some r
    show ?thesis by simp
  qed
qed

text \<open>The split keeps every code unit of the line, in order.\<close>

lemma splitInline_concat: "concat (splitInline t) = t"
  by (simp add: splitInline_def splitFrom_concat)

lemma trimEnd_eq_Nil: "(trimEnd xs = []) = (\<forall>c\<in>set xs. isWhiteSpace c)"
  by (induction xs) (simp_all add: trimEnd_Cons)

lemma trim_leading_space:
  assumes "\<forall>c\<in>set ws. isWhiteSpace c" and "\<not> isWhiteSpace a"
  shows "trim (ws @ a # r) = a # trimEnd r"
proof -
  have "dropWhile isWhiteSpace (ws @ a # r) = a # r"
    using assms by (simp add: dropWhile_append2)
  then show ?thesis using assms(2) by (simp add: trim_trimEnd trimEnd_Cons)
qed

lemma indented_heading_trim:
  assumes ws: "\<forall>c\<in>set ws. isWhiteSpace c" and rest: "\<exists>c\<in>set rest. \<not> isWhiteSpace c"
  shows "trim (ws @ str ''# '' @ rest) = 35 # 32 # trimEnd rest"
    and "trim (ws @ str ''## '' @ rest) = 35 # 35 # 32 # trimEnd rest"
proof -
  have h: "\<not> isWhiteSpace 35" by (simp add: isWhiteSpace_def)
  have r: "trimEnd rest \<noteq> []" using rest by (simp add: trimEnd_eq_Nil)
  show "trim (ws @ str ''# '' @ rest) = 35 # 32 # trimEnd rest"
    using trim_leading_space [OF ws h, of "32 # rest"] r by (simp add: trimEnd_Cons)
  show "trim (ws @ str ''## '' @ rest) = 35 # 35 # 32 # trimEnd rest"
    using trim_leading_space [OF ws h, of "35 # 32 # rest"] r h by (simp add: trimEnd_Cons)
qed

lemma indented_not_heading:
  assumes "ws \<noteq> []" and "\<forall>c\<in>set ws. isWhiteSpace c"
  shows "\<not> startsWith (ws @ r) (35 # p)"
proof -
  obtain w ws' where "ws = w # ws'" using assms(1) by (cases ws) auto
  moreover from this assms(2) have "w \<noteq> 35" by (auto simp: isWhiteSpace_def)
  ultimately show ?thesis by simp
qed

section \<open>Lemmas about the visual trees\<close>

lemma onlyIf_simps [simp]: "onlyIf True xs = xs" "onlyIf False xs = []"
  by (simp_all add: onlyIf_def)

lemma child_simps [simp]: "child None = []" "child (Some e) = [e]"
  by (simp_all add: child_def)

lemma layers_Twitter_parts:
  "layersOf (renderMarkdownWith_Twitter p t) = []"
  "layersOf (header_Twitter p) = [Header]"
  "layersOf (footer_Twitter p) = [Footer]"
  "layersOf (renderTextContent_Twitter p t h) = [TextContent]"
  "concat (map layersOf (child (renderImage_Twitter p))) = onlyIf (showImage (slide p)) [Illustration]"
  by (simp_all add: renderMarkdownWith_Twitter_def header_Twitter_def footer_Twitter_def
        renderTextContent_Twitter_def renderImage_Twitter_def Let_def isLayer_def onlyIf_def)



lemma layers_Twitter_main:
  "layersOf (renderMainContent_Twitter p) =
     (let s = slide p; split = splitContentByHeaders (content s)
      in if contentLayout_Twitter s = str ''image-first''
           then onlyIf (showImage s) [Illustration] @ [TextContent]
         else if contentLayout_Twitter s = str ''image-after-title''
           then onlyIf (trim (titleLines split) \<noteq> []) [TitleSection]
                @ onlyIf (showImage s) [Illustration]
                @ onlyIf (trim (bodyLines split) \<noteq> []) [BodySection]
         else [TextContent] @ onlyIf (showImage s) [Illustration])"
  by (simp add: renderMainContent_Twitter_def Let_def isLayer_def layers_Twitter_parts onlyIf_def)

lemma layers_background:
  "concat (map layersOf (backgroundLayers s th)) = [BackgroundImage, ColorOverlay]"
  "sort_key stackLevel (backgroundLayers s th @ [Elem r (Some 10) t c st k])
     = backgroundLayers s th @ [Elem r (Some 10) t c st k]"
  by (simp_all add: backgroundLayers_def isLayer_def)

lemma paintOrder_Twitter:
  "paintOrder (TwitterSlide p) =
     onlyIf (showBackground (slide p)) [BackgroundImage, ColorOverlay]
     @ [Header] @ layersOf (renderMainContent_Twitter p) @ onlyIf (showSlideNumbers p) [Footer]"
  by (simp add: TwitterSlide_def Let_def layers_background layers_Twitter_parts
        onlyIf_def isLayer_def)

lemma paintOrder_Storyteller:
  "paintOrder (StorytellerSlide p) =
     onlyIf (showBackground (slide p)) [BackgroundImage, ColorOverlay]
     @ onlyIf (showImage (slide p) \<and> truthyS (imageUrl (slide p))) [Illustration]
     @ [TextContent, Footer]"
  by (simp add: StorytellerSlide_def Let_def backgroundLayers_def
        overlayIllustration_Storyteller_def splitIllustration_Storyteller_def
        textContent_Storyteller_def footer_Storyteller_def isOverlay_def showSplit_def
        onlyIf_def isLayer_def)



lemma paintOrder_Lesson:
  "paintOrder (LessonSlide p) =
     (if isCover (slide p)
      then onlyIf (showCoverImage (slide p)) [CoverImage] @ [TextContent, Footer]
      else onlyIf (showBackground (slide p)) [BackgroundImage, ColorOverlay]
           @ (let s = slide p; split = splitContentByHeaders (content s)
           in if showImage s
              then onlyIf (trim (titleLines split) \<noteq> []) [TitleSection] @ [Illustration]
                   @ onlyIf (trim (bodyLines split) \<noteq> []) [BodySection]
              else [TextContent])
           @ [Footer])"
  by (simp add: LessonSlide_def Let_def backgroundLayers_def renderCoverSlide_Lesson_def
        renderContentWithImage_Lesson_def renderContentTextOnly_Lesson_def
        renderFooter_Lesson_def renderMarkdownWith_Lesson_def coverImg_Lesson_def
        onlyIf_def isLayer_def)

lemma forExport_irrelevant_Twitter:
  "renderImage_Twitter (p\<lparr>forExport := a\<rparr>) = renderImage_Twitter p"
  "renderMarkdownWith_Twitter (p\<lparr>forExport := a\<rparr>) = renderMarkdownWith_Twitter p"
  "header_Twitter (p\<lparr>forExport := a\<rparr>) = header_Twitter p"
  "footer_Twitter (p\<lparr>forExport := a\<rparr>) = footer_Twitter p"
  "effectiveFontStyle (p\<lparr>forExport := a\<rparr>) = effectiveFontStyle p"
  "effectiveFontScale (p\<lparr>forExport := a\<rparr>) = effectiveFontScale p"
  by (simp_all add: renderImage_Twitter_def renderMarkdownWith_Twitter_def header_Twitter_def
        footer_Twitter_def effectiveFontStyle_def effectiveFontScale_def fun_eq_iff)

lemma forExport_irrelevant_Twitter_text:
  "renderTextContent_Twitter (p\<lparr>forExport := a\<rparr>) = renderTextContent_Twitter p"
  by (simp add: renderTextContent_Twitter_def forExport_irrelevant_Twitter fun_eq_iff)

lemma forExport_irrelevant_Twitter_main:
  "renderMainContent_Twitter (p\<lparr>forExport := a\<rparr>) = renderMainContent_Twitter p"
  by (simp add: renderMainContent_Twitter_def forExport_irrelevant_Twitter
        forExport_irrelevant_Twitter_text Let_def)

lemma TwitterSlide_forExport:
  "eraseTransitions (TwitterSlide (p\<lparr>forExport := a\<rparr>))
     = eraseTransitions (TwitterSlide (p\<lparr>forExport := b\<rparr>))"
  by (simp add: TwitterSlide_def forExport_irrelevant_Twitter forExport_irrelevant_Twitter_main
        Let_def)

lemma forExport_irrelevant_Storyteller:
  "textContent_Storyteller (p\<lparr>forExport := a\<rparr>) = textContent_Storyteller p"
  "footer_Storyteller (p\<lparr>forExport := a\<rparr>) = footer_Storyteller p"
  by (simp_all add: textContent_Storyteller_def footer_Storyteller_def effectiveFontScale_def Let_def)

lemma forExport_erased_Storyteller:
  "eraseTransitions (overlayIllustration_Storyteller (p\<lparr>forExport := a\<rparr>))
     = eraseTransitions (overlayIllustration_Storyteller (p\<lparr>forExport := b\<rparr>))"
  "eraseTransitions (splitIllustration_Storyteller (p\<lparr>forExport := a\<rparr>))
     = eraseTransitions (splitIllustration_Storyteller (p\<lparr>forExport := b\<rparr>))"
  by (simp_all add: overlayIllustration_Storyteller_def splitIllustration_Storyteller_def Let_def)

lemma StorytellerSlide_forExport:
  "eraseTransitions (StorytellerSlide (p\<lparr>forExport := a\<rparr>))
     = eraseTransitions (StorytellerSlide (p\<lparr>forExport := b\<rparr>))"
  using forExport_erased_Storyteller [where p = p and a = a and b = b]
  by (simp add: StorytellerSlide_def forExport_irrelevant_Storyteller effectiveFontStyle_def
        onlyIf_def Let_def)

lemma forExport_irrelevant_Lesson:
  "renderMarkdownWith_Lesson (p\<lparr>forExport := a\<rparr>) = renderMarkdownWith_Lesson p"
  "textColor_Lesson (p\<lparr>forExport := a\<rparr>) = textColor_Lesson p"
  by (simp_all add: renderMarkdownWith_Lesson_def textColor_Lesson_def effectiveFontScale_def
        fun_eq_iff)

lemma forExport_irrelevant_Lesson_footer:
  "renderFooter_Lesson (p\<lparr>forExport := a\<rparr>) = renderFooter_Lesson p"
  by (simp add: renderFooter_Lesson_def forExport_irrelevant_Lesson Let_def)

lemma forExport_erased_Lesson_img:
  "eraseTransitions (coverImg_Lesson (p\<lparr>forExport := a\<rparr>))
     = eraseTransitions (coverImg_Lesson (p\<lparr>forExport := b\<rparr>))"
  by (simp add: coverImg_Lesson_def Let_def)

lemma forExport_erased_Lesson_cover:
  "map eraseTransitions (renderCoverSlide_Lesson (p\<lparr>forExport := a\<rparr>))
     = map eraseTransitions (renderCoverSlide_Lesson (p\<lparr>forExport := b\<rparr>))"
  using forExport_erased_Lesson_img [where p = p and a = a and b = b]
  by (simp add: renderCoverSlide_Lesson_def forExport_irrelevant_Lesson
        forExport_irrelevant_Lesson_footer onlyIf_def Let_def)

lemma forExport_erased_Lesson_image:
  "map eraseTransitions (renderContentWithImage_Lesson (p\<lparr>forExport := a\<rparr>))
     = map eraseTransitions (renderContentWithImage_Lesson (p\<lparr>forExport := b\<rparr>))"
  by (simp add: renderContentWithImage_Lesson_def forExport_irrelevant_Lesson
        forExport_irrelevant_Lesson_footer onlyIf_def Let_def)

lemma forExport_irrelevant_Lesson_text:
  "renderContentTextOnly_Lesson (p\<lparr>forExport := a\<rparr>) = renderContentTextOnly_Lesson p"
  by (simp add: renderContentTextOnly_Lesson_def forExport_irrelevant_Lesson
        forExport_irrelevant_Lesson_footer Let_def)

lemma LessonSlide_forExport:
  "eraseTransitions (LessonSlide (p\<lparr>forExport := a\<rparr>))
     = eraseTransitions (LessonSlide (p\<lparr>forExport := b\<rparr>))"
  using forExport_erased_Lesson_cover [where p = p and a = a and b = b] forExport_erased_Lesson_image [where p = p and a = a and b = b]
  by (simp add: LessonSlide_def forExport_irrelevant_Lesson_text effectiveFontStyle_def Let_def)

lemma forExport_default:
  "TwitterSlide (p\<lparr>forExport := None\<rparr>) = TwitterSlide (p\<lparr>forExport := Some False\<rparr>)"
  "StorytellerSlide (p\<lparr>forExport := None\<rparr>) = StorytellerSlide (p\<lparr>forExport := Some False\<rparr>)"
  "LessonSlide (p\<lparr>forExport := None\<rparr>) = LessonSlide (p\<lparr>forExport := Some False\<rparr>)"
proof -
  show "TwitterSlide (p\<lparr>forExport := None\<rparr>) = TwitterSlide (p\<lparr>forExport := Some False\<rparr>)"
    by (simp add: TwitterSlide_def forExport_irrelevant_Twitter forExport_irrelevant_Twitter_main
          Let_def nullish_def)
  show "StorytellerSlide (p\<lparr>forExport := None\<rparr>) = StorytellerSlide (p\<lparr>forExport := Some False\<rparr>)"
    by (simp add: StorytellerSlide_def forExport_irrelevant_Storyteller effectiveFontStyle_def
          overlayIllustration_Storyteller_def splitIllustration_Storyteller_def
          Let_def nullish_def)
  have "renderCoverSlide_Lesson (p\<lparr>forExport := None\<rparr>)
          = renderCoverSlide_Lesson (p\<lparr>forExport := Some False\<rparr>)"
    by (simp add: renderCoverSlide_Lesson_def coverImg_Lesson_def forExport_irrelevant_Lesson
          forExport_irrelevant_Lesson_footer Let_def nullish_def)
  moreover have "renderContentWithImage_Lesson (p\<lparr>forExport := None\<rparr>)
          = renderContentWithImage_Lesson (p\<lparr>forExport := Some False\<rparr>)"
    by (simp add: renderContentWithImage_Lesson_def forExport_irrelevant_Lesson
          forExport_irrelevant_Lesson_footer Let_def nullish_def)
  ultimately show "LessonSlide (p\<lparr>forExport := None\<rparr>) = LessonSlide (p\<lparr>forExport := Some False\<rparr>)"
    by (simp add: LessonSlide_def forExport_irrelevant_Lesson_text effectiveFontStyle_def
          Let_def nullish_def)
qed

lemma slide_update_irrelevant_Twitter:
  "renderImage_Twitter (p\<lparr>slide := (slide p)\<lparr>contentLayout := c\<rparr>\<rparr>) = renderImage_Twitter p"
  "renderMarkdownWith_Twitter (p\<lparr>slide := (slide p)\<lparr>contentLayout := c\<rparr>\<rparr>)
     = renderMarkdownWith_Twitter p"
  "header_Twitter (p\<lparr>slide := (slide p)\<lparr>contentLayout := c\<rparr>\<rparr>) = header_Twitter p"
  "footer_Twitter (p\<lparr>slide := (slide p)\<lparr>contentLayout := c\<rparr>\<rparr>) = footer_Twitter p"
  by (simp_all add: renderImage_Twitter_def renderMarkdownWith_Twitter_def header_Twitter_def
        footer_Twitter_def effectiveFontScale_def effectiveImageCanvasOffset_def
        effectiveImageMargin_def imageHeightPercent_Twitter_def imageScale_Twitter_def
        imageOffsetY_of_def effectiveLineHeight_def effectiveParagraphGap_def
        effectiveTextAlignment_def textColorOverride_def showBackground_def fun_eq_iff Let_def)

lemma slide_update_irrelevant_Twitter_text:
  "renderTextContent_Twitter (p\<lparr>slide := (slide p)\<lparr>contentLayout := c\<rparr>\<rparr>)
     = renderTextContent_Twitter p"
  by (simp add: renderTextContent_Twitter_def slide_update_irrelevant_Twitter fun_eq_iff)

lemma unknown_layout_is_default:
  assumes "cl \<noteq> str ''image-first''" and "cl \<noteq> str ''image-after-title''"
  shows "renderMainContent_Twitter (p\<lparr>slide := (slide p)\<lparr>contentLayout := Some cl\<rparr>\<rparr>)
           = Elem ContentArea None [] [] []
               ([renderTextContent_Twitter p (content (slide p)) (textHeightPercent_Twitter (slide p))]
                @ child (renderImage_Twitter p))"
proof -
  let ?p = "p\<lparr>slide := (slide p)\<lparr>contentLayout := Some cl\<rparr>\<rparr>"
  have cl: "contentLayout_Twitter (slide ?p) \<noteq> str ''image-first''"
           "contentLayout_Twitter (slide ?p) \<noteq> str ''image-after-title''"
    using assms by (auto simp: contentLayout_Twitter_def orS_def)
  have th: "textHeightPercent_Twitter (slide ?p) = textHeightPercent_Twitter (slide p)"
    by (simp add: textHeightPercent_Twitter_def imageScale_Twitter_def)
  show ?thesis
    unfolding renderMainContent_Twitter_def Let_def
    using cl th
    by (simp add: slide_update_irrelevant_Twitter slide_update_irrelevant_Twitter_text)
qed

lemma orN_nonzero: "d \<noteq> 0 \<Longrightarrow> orN a d \<noteq> 0"
  by (simp add: orN_def split: option.splits)

lemma find_Twitter_parts:
  "r = Illustration \<or> r = Placeholder \<Longrightarrow> findRole r (renderMarkdownWith_Twitter p t) = []"
  "r = Illustration \<or> r = Placeholder \<Longrightarrow> findRole r (header_Twitter p) = []"
  "r = Illustration \<or> r = Placeholder \<Longrightarrow> findRole r (footer_Twitter p) = []"
  "r = Illustration \<or> r = Placeholder \<Longrightarrow> findRole r (renderTextContent_Twitter p t h) = []"
  "r = Illustration \<or> r = Placeholder \<Longrightarrow> concat (map (findRole r) (backgroundLayers s th)) = []"
  by (auto simp: renderMarkdownWith_Twitter_def header_Twitter_def footer_Twitter_def
        renderTextContent_Twitter_def backgroundLayers_def Let_def onlyIf_def)

lemma find_background:
  "x \<in> set (backgroundLayers s th) \<Longrightarrow> findRole Illustration x = []"
  "x \<in> set (backgroundLayers s th) \<Longrightarrow> findRole Placeholder x = []"
  by (auto simp: backgroundLayers_def)

lemma find_Twitter_main:
  "findRole Illustration (renderMainContent_Twitter p)
     = concat (map (findRole Illustration) (child (renderImage_Twitter p)))"
  by (simp add: renderMainContent_Twitter_def Let_def find_Twitter_parts onlyIf_def)

lemma find_Twitter:
  "findRole Illustration (TwitterSlide p)
     = concat (map (findRole Illustration) (child (renderImage_Twitter p)))"
  by (simp add: TwitterSlide_def Let_def find_Twitter_parts find_Twitter_main onlyIf_def)

lemma renderImage_Twitter_placeholder:
  assumes "showImage (slide p)" and "\<not> truthyS (imageUrl (slide p))"
  shows "\<exists>h st cls.
           renderImage_Twitter p
             = Some (Elem Illustration None ''transition-all duration-300 ease-in-out'' []
                       ((''height'', h) # st)
                       [Elem Placeholder None [] cls [] [Text (str ''Generating...'')]])
           \<and> (h = Pct (imageScale_Twitter (slide p))
                \<or> (\<exists>off. h = CalcPctPx (imageScale_Twitter (slide p)) off))"
  using assms
  by (simp add: renderImage_Twitter_def Let_def imageHeightPercent_Twitter_def)

lemma find_Lesson_parts:
  "findRole Illustration (renderMarkdownWith_Lesson p t) = []"
  "findRole Illustration (renderFooter_Lesson p) = []"
  "concat (map (findRole Illustration) (backgroundLayers s th)) = []"
  by (simp_all add: renderMarkdownWith_Lesson_def renderFooter_Lesson_def backgroundLayers_def
        Let_def onlyIf_def)

lemma find_Lesson:
  assumes "\<not> isCover (slide p)" and "showImage (slide p)" and "\<not> truthyS (imageUrl (slide p))"
  shows "\<exists>cls. findRole Illustration (LessonSlide p)
           = [Elem Illustration None [] [] [(''height'', Pct (imageScale_Lesson (slide p)))]
                [Elem Placeholder None [] cls [] [Text (str ''Generating...'')]]]"
  using assms
  by (simp add: LessonSlide_def renderContentWithImage_Lesson_def Let_def find_Lesson_parts
        onlyIf_def)

lemma find_Storyteller:
  assumes "\<not> truthyS (imageUrl (slide p))"
  shows "findRole Illustration (StorytellerSlide p) = []"
    and "findRole Placeholder (StorytellerSlide p) = []"
  using assms
  by (auto simp: StorytellerSlide_def Let_def find_background textContent_Storyteller_def
        footer_Storyteller_def onlyIf_def)

lemma find_MainContent_Twitter_parts:
  "findRole MainContent (header_Twitter p) = []"
  "findRole MainContent (footer_Twitter p) = []"
  "findRole MainContent (renderMainContent_Twitter p) = []"
  "x \<in> set (backgroundLayers s th) \<Longrightarrow> findRole MainContent x = []"
  by (auto simp: header_Twitter_def footer_Twitter_def renderMainContent_Twitter_def
        renderTextContent_Twitter_def renderMarkdownWith_Twitter_def renderImage_Twitter_def
        backgroundLayers_def Let_def onlyIf_def)

lemma TwitterSlide_padding:
  "\<exists>kids. findRole MainContent (TwitterSlide p)
      = [Elem MainContent (Some 10) [] []
           [(''padding'', Px (effectiveContentPadding (slide p) (layoutSettings p)))] kids]"
  by (auto simp: TwitterSlide_def Let_def find_MainContent_Twitter_parts onlyIf_def)

lemma contentLayout_unread_Storyteller:
  "StorytellerSlide (p\<lparr>slide := (slide p)\<lparr>contentLayout := c\<rparr>\<rparr>) = StorytellerSlide p"
  by (simp add: StorytellerSlide_def Let_def overlayIllustration_Storyteller_def
        splitIllustration_Storyteller_def textContent_Storyteller_def footer_Storyteller_def
        effectiveFontStyle_def effectiveFontScale_def effectiveContentPadding_def
        effectiveLineHeight_def effectiveParagraphGap_def effectiveTextAlignment_def
        textColorOverride_def showBackground_def backgroundLayers_def bgOverlayColor_def
        bgOverlayOpacity_def isOverlay_def showSplit_def imageScale_Storyteller_def
        imageOffsetY_of_def gradientHeight_of_def overlayTextPaddingTop_def)

lemma contentLayout_unread_Lesson:
  "LessonSlide (p\<lparr>slide := (slide p)\<lparr>contentLayout := c\<rparr>\<rparr>) = LessonSlide p"
  by (simp add: LessonSlide_def Let_def renderCoverSlide_Lesson_def
        renderContentWithImage_Lesson_def renderContentTextOnly_Lesson_def
        renderFooter_Lesson_def renderMarkdownWith_Lesson_def coverImg_Lesson_def
        textColor_Lesson_def isCover_def showCoverImage_def isOverlayMode_def gradientOpacity_def
        effectiveFontStyle_def effectiveFontScale_def effectiveContentPadding_def
        effectiveLineHeight_def effectiveParagraphGap_def effectiveTextAlignment_def
        showBackground_def backgroundLayers_def bgOverlayColor_def
        bgOverlayOpacity_def imageScale_Lesson_def imageOffsetY_of_def gradientHeight_of_def)

section \<open>Properties of the settings resolver and the templates\<close>

text \<open>
  C1. The effective content padding, line height, paragraph gap, text alignment,
  image canvas offset and image margin are the per-slide override when present, else
  the global layout setting when present, else the hard default (64, 1.5, 1, left,
  0, 0); the effective font style and font scale are the per-slide value when
  present, else the component's property when present, else \<open>MODERN\<close> and 1. The
  image scale has no global setting: it is the per-slide value when that is present
  and not zero, else the default of the template (50 for the feed-text and lesson
  templates, 45 for the cinematic one). The padding of the main container of the
  feed-text slide is the effective content padding.
\<close>

theorem C1_override_cascade:
  "effectiveContentPadding s ls
     = spec_cascade (Slide.contentPadding s) (optField ls LayoutSettings.contentPadding) 64
   \<and> effectiveLineHeight s ls
     = spec_cascade (Slide.textLineHeight s) (optField ls LayoutSettings.textLineHeight) (3 / 2)
   \<and> effectiveParagraphGap s ls
     = spec_cascade (Slide.paragraphGap s) (optField ls LayoutSettings.paragraphGap) 1
   \<and> effectiveTextAlignment s ls
     = spec_cascade (Slide.textAlignment s) (optField ls LayoutSettings.textAlignment) left
   \<and> effectiveImageCanvasOffset s ls
     = spec_cascade (Slide.imageCanvasOffset s) (optField ls LayoutSettings.imageCanvasOffset) 0
   \<and> effectiveImageMargin s ls
     = spec_cascade (Slide.imageMargin s) (optField ls LayoutSettings.imageMargin) 0
   \<and> effectiveFontStyle p = spec_cascade (Slide.fontStyle (slide p)) (Props.fontStyle p) MODERN
   \<and> effectiveFontScale p = spec_cascade (Slide.fontScale (slide p)) (Props.fontScale p) 1
   \<and> imageScale_Twitter s
     = spec_cascade (if imageScale s = Some 0 then None else imageScale s) None 50
   \<and> imageScale_Storyteller s
     = spec_cascade (if imageScale s = Some 0 then None else imageScale s) None 45
   \<and> imageScale_Lesson s
     = spec_cascade (if imageScale s = Some 0 then None else imageScale s) None 50
   \<and> (\<exists>kids. findRole MainContent (TwitterSlide p)
         = [Elem MainContent (Some 10) [] []
              [(''padding'',
                Px (spec_cascade (Slide.contentPadding (slide p))
                      (optField (layoutSettings p) LayoutSettings.contentPadding) 64))]
              kids])"
proof -
  have layout:
    "effectiveContentPadding s ls
       = spec_cascade (Slide.contentPadding s) (optField ls LayoutSettings.contentPadding) 64"
    "effectiveLineHeight s ls
       = spec_cascade (Slide.textLineHeight s) (optField ls LayoutSettings.textLineHeight) (3 / 2)"
    "effectiveParagraphGap s ls
       = spec_cascade (Slide.paragraphGap s) (optField ls LayoutSettings.paragraphGap) 1"
    "effectiveTextAlignment s ls
       = spec_cascade (Slide.textAlignment s) (optField ls LayoutSettings.textAlignment) left"
    "effectiveImageCanvasOffset s ls
       = spec_cascade (Slide.imageCanvasOffset s) (optField ls LayoutSettings.imageCanvasOffset) 0"
    "effectiveImageMargin s ls
       = spec_cascade (Slide.imageMargin s) (optField ls LayoutSettings.imageMargin) 0"
    for s ls
    by (simp_all add: effectiveContentPadding_def effectiveLineHeight_def
          effectiveParagraphGap_def effectiveTextAlignment_def effectiveImageCanvasOffset_def
          effectiveImageMargin_def spec_cascade_def nullish_def defaultLayoutSettings_def
          split: option.splits)
  have fonts:
    "effectiveFontStyle p = spec_cascade (Slide.fontStyle (slide p)) (Props.fontStyle p) MODERN"
    "effectiveFontScale p = spec_cascade (Slide.fontScale (slide p)) (Props.fontScale p) 1"
    by (simp_all add: effectiveFontStyle_def effectiveFontScale_def spec_cascade_def nullish_def
          split: option.splits)
  have scales:
    "imageScale_Twitter s
       = spec_cascade (if imageScale s = Some 0 then None else imageScale s) None 50"
    "imageScale_Storyteller s
       = spec_cascade (if imageScale s = Some 0 then None else imageScale s) None 45"
    "imageScale_Lesson s
       = spec_cascade (if imageScale s = Some 0 then None else imageScale s) None 50"
    by (simp_all add: imageScale_Twitter_def imageScale_Storyteller_def imageScale_Lesson_def
          spec_cascade_def orN_def split: option.splits)
  have tree: "\<exists>kids. findRole MainContent (TwitterSlide p)
         = [Elem MainContent (Some 10) [] []
              [(''padding'',
                Px (spec_cascade (Slide.contentPadding (slide p))
                      (optField (layoutSettings p) LayoutSettings.contentPadding) 64))]
              kids]"
    using TwitterSlide_padding [of p] by (simp only: layout)
  from layout [of s ls] fonts scales tree show ?thesis by (intro conjI)
qed

theorem C1_witness:
  "effectiveContentPadding (emptySlide\<lparr>Slide.contentPadding := Some 40\<rparr>)
       (Some \<lparr>LayoutSettings.contentPadding = Some 80, imageCanvasOffset = None,
              imageMargin = None, textLineHeight = None, paragraphGap = None,
              textAlignment = None\<rparr>) = 40
   \<and> effectiveContentPadding emptySlide
       (Some \<lparr>LayoutSettings.contentPadding = Some 80, imageCanvasOffset = None,
              imageMargin = None, textLineHeight = None, paragraphGap = None,
              textAlignment = None\<rparr>) = 80
   \<and> effectiveContentPadding emptySlide None = 64
   \<and> imageScale_Twitter (emptySlide\<lparr>imageScale := Some 30\<rparr>) = 30
   \<and> imageScale_Storyteller emptySlide = 45
   \<and> (\<exists>kids. findRole MainContent
         (TwitterSlide (emptyProps\<lparr>slide := emptySlide\<lparr>Slide.contentPadding := Some 40\<rparr>,
            layoutSettings :=
              Some \<lparr>LayoutSettings.contentPadding = Some 80, imageCanvasOffset = None,
                     imageMargin = None, textLineHeight = None, paragraphGap = None,
                     textAlignment = None\<rparr>\<rparr>))
         = [Elem MainContent (Some 10) [] [] [(''padding'', Px 40)] kids])"
  using
    C1_override_cascade [of emptySlide None
       "emptyProps\<lparr>slide := emptySlide\<lparr>Slide.contentPadding := Some 40\<rparr>,
            layoutSettings :=
              Some \<lparr>LayoutSettings.contentPadding = Some 80, imageCanvasOffset = None,
                     imageMargin = None, textLineHeight = None, paragraphGap = None,
                     textAlignment = None\<rparr>\<rparr>"]
    C1_override_cascade [of "emptySlide\<lparr>Slide.contentPadding := Some 40\<rparr>"
       "Some \<lparr>LayoutSettings.contentPadding = Some 80, imageCanvasOffset = None,
              imageMargin = None, textLineHeight = None, paragraphGap = None,
              textAlignment = None\<rparr>" emptyProps]
    C1_override_cascade [of emptySlide
       "Some \<lparr>LayoutSettings.contentPadding = Some 80, imageCanvasOffset = None,
              imageMargin = None, textLineHeight = None, paragraphGap = None,
              textAlignment = None\<rparr>" emptyProps]
    C1_override_cascade [of emptySlide None emptyProps]
    C1_override_cascade [of "emptySlide\<lparr>imageScale := Some 30\<rparr>" None emptyProps]
  by (simp add: spec_cascade_def optField_def emptySlide_def)

theorem C1_counterexample:
  "imageScale_Twitter (emptySlide\<lparr>imageScale := Some 0\<rparr>) = 50
   \<and> imageScale_Twitter (emptySlide\<lparr>imageScale := Some 0\<rparr>)
       \<noteq> spec_cascade (imageScale (emptySlide\<lparr>imageScale := Some 0\<rparr>)) None 50"
  by (simp add: imageScale_Twitter_def orN_def spec_cascade_def emptySlide_def)

text \<open>
  C2. In every template and for every input, the layers in painting order are: the
  background image and its colour overlay (when the slide has a background), then
  the header, illustration and text layers, then the footer; the footer of the
  cinematic and lesson templates is always there and painted last, the pagination
  of the feed-text template is painted last when slide numbers are shown. In the
  cinematic template the illustration is also painted before the text. (In the
  feed-text and lesson templates the illustration and the text are in one container
  of z-index 10 and are painted in document order.)
\<close>

theorem C2_layer_order:
  "sorted (map layerRank (paintOrder (TwitterSlide p)))
   \<and> sorted (map layerRank (paintOrder (StorytellerSlide p)))
   \<and> sorted (map layerRank (paintOrder (LessonSlide p)))
   \<and> sorted (map strictRank (paintOrder (StorytellerSlide p)))
   \<and> last (paintOrder (StorytellerSlide p)) = Footer
   \<and> last (paintOrder (LessonSlide p)) = Footer
   \<and> (showSlideNumbers p \<longrightarrow> last (paintOrder (TwitterSlide p)) = Footer)"
proof -
  have t: "sorted (map layerRank (paintOrder (TwitterSlide p)))"
    by (simp add: paintOrder_Twitter layers_Twitter_main Let_def onlyIf_def layerRank_def)
  have s: "sorted (map layerRank (paintOrder (StorytellerSlide p)))"
          "sorted (map strictRank (paintOrder (StorytellerSlide p)))"
          "last (paintOrder (StorytellerSlide p)) = Footer"
    by (simp_all add: paintOrder_Storyteller onlyIf_def layerRank_def strictRank_def)
  have l: "sorted (map layerRank (paintOrder (LessonSlide p)))"
          "last (paintOrder (LessonSlide p)) = Footer"
    by (simp_all add: paintOrder_Lesson Let_def onlyIf_def layerRank_def)
  have f: "showSlideNumbers p \<longrightarrow> last (paintOrder (TwitterSlide p)) = Footer"
    by (simp add: paintOrder_Twitter)
  from t s l f show ?thesis by simp
qed

theorem C2_witness:
  "showSlideNumbers (emptyProps\<lparr>showSlideNumbers := True,
       slide := emptySlide\<lparr>showImage := True, showBackgroundImage := Some True,
                             backgroundImageUrl := Some (str ''bg.png'')\<rparr>\<rparr>)
   \<and> last (paintOrder (TwitterSlide (emptyProps\<lparr>showSlideNumbers := True,
       slide := emptySlide\<lparr>showImage := True, showBackgroundImage := Some True,
                             backgroundImageUrl := Some (str ''bg.png'')\<rparr>\<rparr>))) = Footer
   \<and> paintOrder (TwitterSlide (emptyProps\<lparr>showSlideNumbers := True,
       slide := emptySlide\<lparr>showImage := True, showBackgroundImage := Some True,
                             backgroundImageUrl := Some (str ''bg.png'')\<rparr>\<rparr>))
       = [BackgroundImage, ColorOverlay, Header, TextContent, Illustration, Footer]
   \<and> paintOrder (StorytellerSlide (emptyProps\<lparr>showSlideNumbers := True,
       slide := emptySlide\<lparr>showImage := True, imageUrl := Some (str ''a.png''),
                             showBackgroundImage := Some True,
                             backgroundImageUrl := Some (str ''bg.png'')\<rparr>\<rparr>))
       = [BackgroundImage, ColorOverlay, Illustration, TextContent, Footer]"
proof -
  let ?P = "emptyProps\<lparr>showSlideNumbers := True,
       slide := emptySlide\<lparr>showImage := True, showBackgroundImage := Some True,
                             backgroundImageUrl := Some (str ''bg.png'')\<rparr>\<rparr>"
  have n: "showSlideNumbers ?P" by simp
  have po: "paintOrder (TwitterSlide ?P)
       = [BackgroundImage, ColorOverlay, Header, TextContent, Illustration, Footer]"
    by (simp add: paintOrder_Twitter layers_Twitter_main Let_def showBackground_def truthyB_def
          truthyS_def contentLayout_Twitter_def orS_def emptySlide_def)
  have ps: "paintOrder (StorytellerSlide (emptyProps\<lparr>showSlideNumbers := True,
       slide := emptySlide\<lparr>showImage := True, imageUrl := Some (str ''a.png''),
                             showBackgroundImage := Some True,
                             backgroundImageUrl := Some (str ''bg.png'')\<rparr>\<rparr>))
       = [BackgroundImage, ColorOverlay, Illustration, TextContent, Footer]"
    by (simp add: paintOrder_Storyteller showBackground_def truthyB_def truthyS_def emptySlide_def)
  from C2_layer_order [of ?P] n po ps show ?thesis by simp
qed

theorem C2_counterexample:
  "paintOrder (TwitterSlide (emptyProps\<lparr>showSlideNumbers := True,
       slide := emptySlide\<lparr>showImage := True\<rparr>\<rparr>))
     = [Header, TextContent, Illustration, Footer]
   \<and> \<not> sorted (map strictRank (paintOrder (TwitterSlide (emptyProps\<lparr>showSlideNumbers := True,
       slide := emptySlide\<lparr>showImage := True\<rparr>\<rparr>))))
   \<and> paintOrder (TwitterSlide (emptyProps\<lparr>slide := emptySlide\<lparr>showImage := True\<rparr>\<rparr>))
     = [Header, TextContent, Illustration]"
proof -
  have a: "paintOrder (TwitterSlide (emptyProps\<lparr>showSlideNumbers := True,
       slide := emptySlide\<lparr>showImage := True\<rparr>\<rparr>))
     = [Header, TextContent, Illustration, Footer]"
    by (simp add: paintOrder_Twitter layers_Twitter_main Let_def showBackground_def truthyB_def
          contentLayout_Twitter_def orS_def emptySlide_def)
  have b: "paintOrder (TwitterSlide (emptyProps\<lparr>slide := emptySlide\<lparr>showImage := True\<rparr>\<rparr>))
     = [Header, TextContent, Illustration]"
    by (simp add: paintOrder_Twitter layers_Twitter_main Let_def showBackground_def truthyB_def
          contentLayout_Twitter_def orS_def emptySlide_def emptyProps_def)
  show ?thesis unfolding a b by (simp add: strictRank_def)
qed

text \<open>
  C3. When a slide shows an image and has no image URL, the feed-text template (for
  every content layout) and the lesson template (for a slide that is not a cover)
  produce one illustration region that holds the placeholder with the text
  \<^verbatim>\<open>Generating...\<close>, of a height whose percentage is the image scale, which is not
  zero. The cinematic template produces no illustration region and no placeholder
  in that case.
\<close>

theorem C3_placeholder_region:
  assumes "showImage (slide p)" and "\<not> truthyS (imageUrl (slide p))"
  shows "(\<exists>h st cls.
            findRole Illustration (TwitterSlide p)
              = [Elem Illustration None ''transition-all duration-300 ease-in-out'' []
                   ((''height'', h) # st)
                   [Elem Placeholder None [] cls [] [Text (str ''Generating...'')]]]
            \<and> (h = Pct (imageScale_Twitter (slide p))
                 \<or> (\<exists>off. h = CalcPctPx (imageScale_Twitter (slide p)) off)))
       \<and> imageScale_Twitter (slide p) \<noteq> 0
       \<and> (\<not> isCover (slide p) \<longrightarrow>
            (\<exists>cls. findRole Illustration (LessonSlide p)
               = [Elem Illustration None [] [] [(''height'', Pct (imageScale_Lesson (slide p)))]
                    [Elem Placeholder None [] cls [] [Text (str ''Generating...'')]]]))
       \<and> imageScale_Lesson (slide p) \<noteq> 0
       \<and> findRole Illustration (StorytellerSlide p) = []
       \<and> findRole Placeholder (StorytellerSlide p) = []"
proof -
  from renderImage_Twitter_placeholder [OF assms] obtain h st cls where
    ri: "renderImage_Twitter p
             = Some (Elem Illustration None ''transition-all duration-300 ease-in-out'' []
                       ((''height'', h) # st)
                       [Elem Placeholder None [] cls [] [Text (str ''Generating...'')]])"
    and h: "h = Pct (imageScale_Twitter (slide p))
                \<or> (\<exists>off. h = CalcPctPx (imageScale_Twitter (slide p)) off)"
    by blast
  have tw: "findRole Illustration (TwitterSlide p)
              = [Elem Illustration None ''transition-all duration-300 ease-in-out'' []
                   ((''height'', h) # st)
                   [Elem Placeholder None [] cls [] [Text (str ''Generating...'')]]]"
    by (simp add: find_Twitter ri)
  have nz: "imageScale_Twitter (slide p) \<noteq> 0" "imageScale_Lesson (slide p) \<noteq> 0"
    by (simp_all add: imageScale_Twitter_def imageScale_Lesson_def orN_nonzero)
  have le: "\<not> isCover (slide p) \<longrightarrow>
            (\<exists>cls. findRole Illustration (LessonSlide p)
               = [Elem Illustration None [] [] [(''height'', Pct (imageScale_Lesson (slide p)))]
                    [Elem Placeholder None [] cls [] [Text (str ''Generating...'')]]])"
    using find_Lesson [OF _ assms] by blast
  from tw h nz le find_Storyteller [OF assms(2)] show ?thesis by blast
qed

theorem C3_witness:
  "showImage (slide (emptyProps\<lparr>slide := emptySlide\<lparr>showImage := True\<rparr>\<rparr>))
   \<and> \<not> truthyS (imageUrl (slide (emptyProps\<lparr>slide := emptySlide\<lparr>showImage := True\<rparr>\<rparr>)))
   \<and> \<not> isCover (slide (emptyProps\<lparr>slide := emptySlide\<lparr>showImage := True\<rparr>\<rparr>))
   \<and> (\<exists>st cls.
         findRole Illustration (TwitterSlide (emptyProps\<lparr>slide := emptySlide\<lparr>showImage := True\<rparr>\<rparr>))
           = [Elem Illustration None ''transition-all duration-300 ease-in-out'' []
                ((''height'', Pct 50) # st)
                [Elem Placeholder None [] cls [] [Text (str ''Generating...'')]]])
   \<and> (\<exists>cls.
         findRole Illustration (LessonSlide (emptyProps\<lparr>slide := emptySlide\<lparr>showImage := True\<rparr>\<rparr>))
           = [Elem Illustration None [] [] [(''height'', Pct 50)]
                [Elem Placeholder None [] cls [] [Text (str ''Generating...'')]]])"
proof -
  let ?P = "emptyProps\<lparr>slide := emptySlide\<lparr>showImage := True\<rparr>\<rparr>"
  have h1: "showImage (slide ?P)" by simp
  have h2: "\<not> truthyS (imageUrl (slide ?P))" by (simp add: truthyS_def emptySlide_def)
  have h3: "\<not> isCover (slide ?P)" by (simp add: isCover_def emptySlide_def)
  have sc: "imageScale_Twitter (slide ?P) = 50" "imageScale_Lesson (slide ?P) = 50"
    by (simp_all add: imageScale_Twitter_def imageScale_Lesson_def orN_def emptySlide_def)
  have off: "effectiveImageCanvasOffset (slide ?P) (layoutSettings ?P) = 0"
    by (simp add: effectiveImageCanvasOffset_def nullish_def optField_def emptySlide_def
          emptyProps_def defaultLayoutSettings_def)
  have tw: "\<exists>st cls. findRole Illustration (TwitterSlide ?P)
           = [Elem Illustration None ''transition-all duration-300 ease-in-out'' []
                ((''height'', Pct 50) # st)
                [Elem Placeholder None [] cls [] [Text (str ''Generating...'')]]]"
    using h2 off sc
    by (simp add: find_Twitter renderImage_Twitter_def Let_def imageHeightPercent_Twitter_def)
  from C3_placeholder_region [OF h1 h2] h1 h2 h3 sc tw show ?thesis by simp
qed

theorem C3_counterexample:
  "showImage (slide (emptyProps\<lparr>slide := emptySlide\<lparr>showImage := True\<rparr>\<rparr>))
   \<and> imageUrl (slide (emptyProps\<lparr>slide := emptySlide\<lparr>showImage := True\<rparr>\<rparr>)) = None
   \<and> findRole Illustration (StorytellerSlide (emptyProps\<lparr>slide := emptySlide\<lparr>showImage := True\<rparr>\<rparr>)) = []
   \<and> findRole Placeholder (StorytellerSlide (emptyProps\<lparr>slide := emptySlide\<lparr>showImage := True\<rparr>\<rparr>)) = []
   \<and> paintOrder (StorytellerSlide (emptyProps\<lparr>slide := emptySlide\<lparr>showImage := True\<rparr>\<rparr>))
       = [TextContent, Footer]"
proof -
  let ?P = "emptyProps\<lparr>slide := emptySlide\<lparr>showImage := True\<rparr>\<rparr>"
  have h2: "\<not> truthyS (imageUrl (slide ?P))" by (simp add: truthyS_def emptySlide_def)
  have po: "paintOrder (StorytellerSlide ?P) = [TextContent, Footer]"
    by (simp add: paintOrder_Storyteller showBackground_def truthyB_def truthyS_def emptySlide_def)
  from find_Storyteller [OF h2] po show ?thesis by (simp add: emptySlide_def)
qed

text \<open>
  C4. For every input and every template, the tree for the export
  (\<open>forExport = true\<close>) and the tree for the screen (\<open>forExport = false\<close>, also the
  default) are equal once the transition classes are erased; they do differ in
  those classes.
\<close>

theorem C4_export_differs_only_in_transitions:
  "eraseTransitions (TwitterSlide (p\<lparr>forExport := Some True\<rparr>))
     = eraseTransitions (TwitterSlide (p\<lparr>forExport := Some False\<rparr>))
   \<and> eraseTransitions (StorytellerSlide (p\<lparr>forExport := Some True\<rparr>))
     = eraseTransitions (StorytellerSlide (p\<lparr>forExport := Some False\<rparr>))
   \<and> eraseTransitions (LessonSlide (p\<lparr>forExport := Some True\<rparr>))
     = eraseTransitions (LessonSlide (p\<lparr>forExport := Some False\<rparr>))
   \<and> TwitterSlide (p\<lparr>forExport := None\<rparr>) = TwitterSlide (p\<lparr>forExport := Some False\<rparr>)
   \<and> StorytellerSlide (p\<lparr>forExport := None\<rparr>) = StorytellerSlide (p\<lparr>forExport := Some False\<rparr>)
   \<and> LessonSlide (p\<lparr>forExport := None\<rparr>) = LessonSlide (p\<lparr>forExport := Some False\<rparr>)
   \<and> TwitterSlide (p\<lparr>forExport := Some True\<rparr>) \<noteq> TwitterSlide (p\<lparr>forExport := Some False\<rparr>)
   \<and> StorytellerSlide (p\<lparr>forExport := Some True\<rparr>) \<noteq> StorytellerSlide (p\<lparr>forExport := Some False\<rparr>)
   \<and> LessonSlide (p\<lparr>forExport := Some True\<rparr>) \<noteq> LessonSlide (p\<lparr>forExport := Some False\<rparr>)"
  using TwitterSlide_forExport [where p = p and a = "Some True" and b = "Some False"]
    StorytellerSlide_forExport [where p = p and a = "Some True" and b = "Some False"]
    LessonSlide_forExport [where p = p and a = "Some True" and b = "Some False"]
    forExport_default [where p = p]
  by (simp add: TwitterSlide_def StorytellerSlide_def LessonSlide_def Let_def nullish_def)

text \<open>
  C6. A content layout other than \<^verbatim>\<open>image-first\<close> and \<^verbatim>\<open>image-after-title\<close> gives the
  default composition of the feed-text template: the whole content, then the image.
  The slide is then the one composed for \<^verbatim>\<open>default\<close> and for an undefined layout.
  The cinematic and lesson templates do not read the content layout, so their slide
  is the same for every value. The composers are total functions: they have no
  branch that raises.
\<close>

theorem C6_unknown_content_layout_falls_back:
  assumes "cl \<noteq> str ''image-first''" and "cl \<noteq> str ''image-after-title''"
  shows "renderMainContent_Twitter (p\<lparr>slide := (slide p)\<lparr>contentLayout := Some cl\<rparr>\<rparr>)
           = Elem ContentArea None [] [] []
               ([renderTextContent_Twitter p (content (slide p)) (textHeightPercent_Twitter (slide p))]
                @ child (renderImage_Twitter p))
       \<and> TwitterSlide (p\<lparr>slide := (slide p)\<lparr>contentLayout := Some cl\<rparr>\<rparr>)
           = TwitterSlide (p\<lparr>slide := (slide p)\<lparr>contentLayout := Some (str ''default'')\<rparr>\<rparr>)
       \<and> TwitterSlide (p\<lparr>slide := (slide p)\<lparr>contentLayout := Some cl\<rparr>\<rparr>)
           = TwitterSlide (p\<lparr>slide := (slide p)\<lparr>contentLayout := None\<rparr>\<rparr>)
       \<and> StorytellerSlide (p\<lparr>slide := (slide p)\<lparr>contentLayout := Some cl\<rparr>\<rparr>)
           = StorytellerSlide (p\<lparr>slide := (slide p)\<lparr>contentLayout := None\<rparr>\<rparr>)
       \<and> LessonSlide (p\<lparr>slide := (slide p)\<lparr>contentLayout := Some cl\<rparr>\<rparr>)
           = LessonSlide (p\<lparr>slide := (slide p)\<lparr>contentLayout := None\<rparr>\<rparr>)"
proof -
  have d: "str ''default'' \<noteq> str ''image-first''" "str ''default'' \<noteq> str ''image-after-title''"
    by simp_all
  have main: "renderMainContent_Twitter (p\<lparr>slide := (slide p)\<lparr>contentLayout := Some cl\<rparr>\<rparr>)
      = renderMainContent_Twitter (p\<lparr>slide := (slide p)\<lparr>contentLayout := Some (str ''default'')\<rparr>\<rparr>)"
    by (simp only: unknown_layout_is_default [OF assms] unknown_layout_is_default [OF d])
  have none: "renderMainContent_Twitter (p\<lparr>slide := (slide p)\<lparr>contentLayout := None\<rparr>\<rparr>)
      = renderMainContent_Twitter (p\<lparr>slide := (slide p)\<lparr>contentLayout := Some (str ''default'')\<rparr>\<rparr>)"
    by (simp add: renderMainContent_Twitter_def contentLayout_Twitter_def orS_def
          slide_update_irrelevant_Twitter slide_update_irrelevant_Twitter_text Let_def
          textHeightPercent_Twitter_def imageScale_Twitter_def)
  have rest: "TwitterSlide (p\<lparr>slide := (slide p)\<lparr>contentLayout := c\<rparr>\<rparr>)
      = Elem Root None (if nullish (forExport p) False then [] else ''transition-colors duration-300'') []
           [(''backgroundColor'', Colour (if Props.theme p = DARK then str ''#000000'' else str ''#FFFFFF'')),
            (''fontFamily'', FontFamily (getFontFamily (effectiveFontStyle p)))]
           (onlyIf (showBackground (slide p)) (backgroundLayers (slide p) (Props.theme p))
            @ [Elem MainContent (Some 10) [] []
                 [(''padding'', Px (effectiveContentPadding (slide p) (layoutSettings p)))]
                 ([header_Twitter p,
                   renderMainContent_Twitter (p\<lparr>slide := (slide p)\<lparr>contentLayout := c\<rparr>\<rparr>)]
                  @ onlyIf (showSlideNumbers p) [footer_Twitter p])])" for c
    by (simp add: TwitterSlide_def Let_def slide_update_irrelevant_Twitter effectiveFontStyle_def
          showBackground_def backgroundLayers_def bgOverlayColor_def bgOverlayOpacity_def
          effectiveContentPadding_def)
  have other:
    "StorytellerSlide (p\<lparr>slide := (slide p)\<lparr>contentLayout := Some cl\<rparr>\<rparr>)
       = StorytellerSlide (p\<lparr>slide := (slide p)\<lparr>contentLayout := None\<rparr>\<rparr>)"
    "LessonSlide (p\<lparr>slide := (slide p)\<lparr>contentLayout := Some cl\<rparr>\<rparr>)
       = LessonSlide (p\<lparr>slide := (slide p)\<lparr>contentLayout := None\<rparr>\<rparr>)"
    by (simp_all only: contentLayout_unread_Storyteller contentLayout_unread_Lesson)
  show ?thesis
    using unknown_layout_is_default [OF assms] main none other by (simp add: rest)
qed

theorem C6_witness:
  "str ''carousel'' \<noteq> str ''image-first'' \<and> str ''carousel'' \<noteq> str ''image-after-title''
   \<and> TwitterSlide (emptyProps\<lparr>slide := (slide emptyProps)\<lparr>contentLayout := Some (str ''carousel'')\<rparr>\<rparr>)
       = TwitterSlide (emptyProps\<lparr>slide := (slide emptyProps)\<lparr>contentLayout := None\<rparr>\<rparr>)
   \<and> paintOrder (TwitterSlide (emptyProps\<lparr>slide := emptySlide\<lparr>contentLayout := Some (str ''carousel''), showImage := True\<rparr>\<rparr>))
       = [Header, TextContent, Illustration]"
proof -
  have h1: "str ''carousel'' \<noteq> str ''image-first''" by simp
  have h2: "str ''carousel'' \<noteq> str ''image-after-title''" by simp
  have po: "paintOrder (TwitterSlide (emptyProps\<lparr>slide := emptySlide\<lparr>contentLayout := Some (str ''carousel''), showImage := True\<rparr>\<rparr>))
       = [Header, TextContent, Illustration]"
    by (simp add: paintOrder_Twitter layers_Twitter_main Let_def showBackground_def truthyB_def
          contentLayout_Twitter_def orS_def emptySlide_def emptyProps_def)
  have eq: "TwitterSlide (emptyProps\<lparr>slide := (slide emptyProps)\<lparr>contentLayout := Some (str ''carousel'')\<rparr>\<rparr>)
       = TwitterSlide (emptyProps\<lparr>slide := (slide emptyProps)\<lparr>contentLayout := None\<rparr>\<rparr>)"
    using C6_unknown_content_layout_falls_back [OF h1 h2, of emptyProps] by (elim conjE)
  show ?thesis using h1 h2 eq po by (intro conjI) assumption+
qed

section \<open>Properties of the parser, the block resolver and the splitter\<close>

text \<open>
  C5. The title/body splitter is idempotent: for every content string \<open>x\<close>, splitting
  the title part of the split of \<open>x\<close> again gives that title unchanged, with an
  empty body.
\<close>

theorem C5_splitter_idempotent:
  "bodyLines (splitContentByHeaders (titleLines (splitContentByHeaders x))) = []
   \<and> titleLines (splitContentByHeaders (titleLines (splitContentByHeaders x)))
       = titleLines (splitContentByHeaders x)"
proof -
  define T where "T = takeWhile isTitleLine (splitOn 10 x)"
  have t: "titleLines (splitContentByHeaders x) = joinWith 10 T"
    by (simp add: splitContentByHeaders_eq T_def)
  have allT: "\<And>l. l \<in> set T \<Longrightarrow> isTitleLine l"
    unfolding T_def by (auto dest: set_takeWhileD)
  have nosep: "\<And>l. l \<in> set T \<Longrightarrow> 10 \<notin> set l"
    unfolding T_def by (auto dest!: set_takeWhileD splitOn_no_sep)
  show ?thesis
  proof (cases "T = []")
    case True
    then have "titleLines (splitContentByHeaders x) = []" by (simp add: t)
    moreover have "splitContentByHeaders [] = \<lparr>titleLines = [], bodyLines = []\<rparr>"
      by (simp add: splitContentByHeaders_eq isTitleLine_Nil)
    ultimately show ?thesis by simp
  next
    case False
    then have sp: "splitOn 10 (joinWith 10 T) = T"
      using nosep by (rule splitOn_joinWith)
    have tw: "takeWhile isTitleLine T = T" using allT by (simp add: takeWhile_eq_all_conv)
    have dw: "dropWhile isTitleLine T = []" using allT by simp
    have "splitContentByHeaders (joinWith 10 T) = \<lparr>titleLines = joinWith 10 T, bodyLines = []\<rparr>"
      by (simp add: splitContentByHeaders_eq sp tw dw)
    then show ?thesis unfolding t by simp
  qed
qed

text \<open>
  C7. A line whose trimmed form is a run of digits, a period, a space and a rest is a
  numbered item in every template; the number shown is the run of digits as the user
  wrote it, and the content is the inline parse of the rest.
\<close>

theorem C7_numbered_item_keeps_number:
  assumes "trim line = ds @ str ''. '' @ rest" and "ds \<noteq> []" and "\<forall>c\<in>set ds. isDigit c"
  shows "(\<exists>cls ws ms cs.
            renderLine_Twitter th fs lh pg tco ta line
              = NumberedItem cls ws ds ms cs (parseInline_Twitter rest th))
       \<and> (\<exists>cls ws ms cs.
            renderLine_Storyteller th ac fs lh pg tco ta line
              = NumberedItem cls ws ds ms cs (parseInline_Storyteller rest th ac))
       \<and> (\<exists>cls ws ms cs.
            renderLine_Lesson th ac fs lh pg ta line
              = NumberedItem cls ws ds ms cs (parseInline_Lesson rest th ac))"
proof -
  note c = numbered_classification [OF assms]
  have "\<exists>cls ws ms cs. renderLine_Twitter th fs lh pg tco ta line
              = NumberedItem cls ws ds ms cs (parseInline_Twitter rest th)"
    using c by (simp add: renderLine_Twitter_def Let_def)
  moreover have "\<exists>cls ws ms cs. renderLine_Storyteller th ac fs lh pg tco ta line
              = NumberedItem cls ws ds ms cs (parseInline_Storyteller rest th ac)"
    using c by (simp add: renderLine_Storyteller_def Let_def)
  moreover have "\<exists>cls ws ms cs. renderLine_Lesson th ac fs lh pg ta line
              = NumberedItem cls ws ds ms cs (parseInline_Lesson rest th ac)"
    using c by (simp add: renderLine_Lesson_def Let_def)
  ultimately show ?thesis by (intro conjI)
qed

theorem C7_witness:
  "trim (str ''5. Fifth item'') = str ''5'' @ str ''. '' @ str ''Fifth item''
   \<and> str ''5'' \<noteq> [] \<and> list_all isDigit (str ''5'')
   \<and> (\<exists>cls ws ms cs.
         renderMarkdown_Twitter (str ''5. Fifth item'') LIGHT 1 (3 / 2) 1 None left
           = [NumberedItem cls ws (str ''5'') ms cs [Lit (str ''Fifth item'')]])"
proof -
  have h1: "trim (str ''5. Fifth item'') = str ''5'' @ str ''. '' @ str ''Fifth item''"
    by (simp add: trim_trimEnd trimEnd_Cons isWhiteSpace_def)
  have h2: "str ''5'' \<noteq> []" by simp
  have h3: "\<forall>c\<in>set (str ''5''). isDigit c" by (simp add: isDigit_def)
  have p: "parseInline_Twitter (str ''Fifth item'') LIGHT = [Lit (str ''Fifth item'')]"
    by (simp add: parseInline_Twitter_def inline_eval)
  have s: "splitOn 10 (str ''5. Fifth item'') = [str ''5. Fifth item'']"
    by simp
  from C7_numbered_item_keeps_number [OF h1 h2 h3, of LIGHT 1 "3 / 2" 1 None left]
  show ?thesis
    unfolding renderMarkdown_Twitter_def s p
    using h1 h3 by (auto simp: list_all_iff)
qed

text \<open>
  C8. The line \<^verbatim>\<open>**bold** and *italic*\<close> parses to a strong run, the literal
  \<^verbatim>\<open> and \<close> and an emphasis run, in this order, between two empty literals. A part
  that is not a token is returned as it is only when it does not itself begin and
  end with a delimiter: the line \<^verbatim>\<open>*\<close> is not matched by the expression, yet it
  is turned into an emphasis run with empty content, so the asterisk is not shown;
  the same happens to the last asterisk of \<^verbatim>\<open>**a***\<close>.
\<close>

theorem C8_example_and_lone_delimiter:
  "parseInline_Twitter (str ''**bold** and *italic*'') th
     = [Lit [],
        Strong (''font-bold '' @ (if th = DARK then ''text-white'' else ''text-gray-900'')) (str ''bold''),
        Lit (str '' and ''),
        Em (''italic '' @ (if th = DARK then ''text-gray-300'' else ''text-gray-800'')) (str ''italic''),
        Lit []]
   \<and> parseInline_Storyteller (str ''**bold** and *italic*'') th ac
     = [Lit [],
        Strong (''font-black '' @ (if th = DARK then ''text-white'' else ''text-black'')) (str ''bold''),
        Lit (str '' and ''),
        Em (''italic '' @ (if th = DARK then ''text-gray-300'' else ''text-gray-600'')) (str ''italic''),
        Lit []]
   \<and> parseInline_Lesson (str ''**bold** and *italic*'') th ac
     = [Lit [],
        Strong (''font-bold '' @ (if th = DARK then ''text-white'' else ''text-black'')) (str ''bold''),
        Lit (str '' and ''),
        Em (''italic '' @ (if th = DARK then ''text-gray-300'' else ''text-gray-600'')) (str ''italic''),
        Lit []]
   \<and> matchToken (str ''*'') = None
   \<and> splitInline (str ''*'') = [str ''*'']
   \<and> parseInline_Twitter (str ''*'') th
     = [Em (''italic '' @ (if th = DARK then ''text-gray-300'' else ''text-gray-800'')) []]
   \<and> parseInline_Storyteller (str ''*'') th ac
     = [Em (''italic '' @ (if th = DARK then ''text-gray-300'' else ''text-gray-600'')) []]
   \<and> parseInline_Lesson (str ''*'') th ac
     = [Em (''italic '' @ (if th = DARK then ''text-gray-300'' else ''text-gray-600'')) []]
   \<and> splitInline (str ''**a***'') = [[], str ''**a**'', str ''*'']
   \<and> parseInline_Twitter (str ''**a***'') th
     = [Lit [],
        Strong (''font-bold '' @ (if th = DARK then ''text-white'' else ''text-gray-900'')) (str ''a''),
        Em (''italic '' @ (if th = DARK then ''text-gray-300'' else ''text-gray-800'')) []]"
proof -
  have split_example:
    "splitInline (str ''**bold** and *italic*'')
       = [[], str ''**bold**'', str '' and '', str ''*italic*'', []]"
    by (simp add: inline_eval)
  have no_token: "matchToken (str ''*'') = None"
    by (simp add: inline_eval)
  have split_lone: "splitInline (str ''*'') = [str ''*'']"
    by (simp add: inline_eval)
  have split_trailing: "splitInline (str ''**a***'') = [[], str ''**a**'', str ''*'']"
    by (simp add: inline_eval)
  show ?thesis
    unfolding parseInline_Twitter_def parseInline_Storyteller_def parseInline_Lesson_def Let_def
      split_example split_lone split_trailing
    using no_token
    by (simp add: endsWith_def slice_def relIndex_def)
qed

text \<open>
  C9. The line \<^verbatim>\<open>****\<close> is matched by the first alternative of the expression, the
  bold one, and becomes one strong run with empty content (between two empty
  literals), not four asterisks.
\<close>

theorem C9_empty_bold_token:
  "matchDelim (str ''**'') (str ''****'') = Some (str ''****'', [])
   \<and> splitInline (str ''****'') = [[], str ''****'', []]
   \<and> parseInline_Twitter (str ''****'') th
       = [Lit [], Strong (''font-bold '' @ (if th = DARK then ''text-white'' else ''text-gray-900'')) [], Lit []]
   \<and> parseInline_Storyteller (str ''****'') th ac
       = [Lit [], Strong (''font-black '' @ (if th = DARK then ''text-white'' else ''text-black'')) [], Lit []]
   \<and> parseInline_Lesson (str ''****'') th ac
       = [Lit [], Strong (''font-bold '' @ (if th = DARK then ''text-white'' else ''text-black'')) [], Lit []]"
proof -
  have bold_first: "matchDelim (str ''**'') (str ''****'') = Some (str ''****'', [])"
    by (simp add: matchDelim_def)
  have split: "splitInline (str ''****'') = [[], str ''****'', []]"
    by (simp add: inline_eval)
  have sliced: "slice (str ''****'') 2 (- 2) = []"
    by (simp add: slice_def relIndex_def)
  show ?thesis
    unfolding parseInline_Twitter_def parseInline_Storyteller_def parseInline_Lesson_def Let_def
      split
    using bold_first split sliced
    by (simp add: endsWith_def)
qed

text \<open>
  C10. A line made of white space, then \<^verbatim>\<open># \<close> or \<^verbatim>\<open>## \<close>, then a rest that is not
  all white space, is a paragraph for the block renderer of every template, which
  tests the raw line for headings, and a title line for the splitter, which tests
  the trimmed line. (When the rest is all white space, trimming removes the space
  after the hash sign and the splitter does not take the line as a title.)
\<close>

theorem C10_indented_heading:
  assumes "ws \<noteq> []" and "\<forall>c\<in>set ws. isWhiteSpace c"
    and "\<exists>c\<in>set rest. \<not> isWhiteSpace c"
    and "line = ws @ str ''# '' @ rest \<or> line = ws @ str ''## '' @ rest"
  shows "(\<exists>st. renderLine_Twitter th fs lh pg tco ta line
                 = Paragraph st (parseInline_Twitter line th))
       \<and> (\<exists>st. renderLine_Storyteller th ac fs lh pg tco ta line
                 = Paragraph st (parseInline_Storyteller line th ac))
       \<and> (\<exists>st. renderLine_Lesson th ac fs lh pg ta line
                 = Paragraph st (parseInline_Lesson line th ac))
       \<and> isTitleLine line
       \<and> (10 \<notin> set line \<longrightarrow>
            splitContentByHeaders line = \<lparr>titleLines = line, bodyLines = []\<rparr>)"
proof -
  from assms(4) obtain r where lr: "line = ws @ r" by auto
  have nh1: "\<not> startsWith line (str ''# '')" and nh2: "\<not> startsWith line (str ''## '')"
    using indented_not_heading [OF assms(1,2)] by (simp_all add: lr)
  from assms(4) obtain t where t: "trim line = 35 # t" "t \<noteq> []"
    and sw: "startsWith (trim line) (str ''# '') \<or> startsWith (trim line) (str ''## '')"
    using indented_heading_trim [OF assms(2,3)] by auto
  have nb: "\<not> startsWith (trim line) (str ''- '')" using t by simp
  have nn: "\<not> testNumbered (trim line)" using t by (simp add: testNumbered_def isDigit_def)
  have ne: "trim line \<noteq> []" using t by simp
  have title: "isTitleLine line" using sw by (auto simp: isTitleLine_def)
  have split: "splitContentByHeaders line = \<lparr>titleLines = line, bodyLines = []\<rparr>"
    if "10 \<notin> set line"
    using that title by (simp add: splitContentByHeaders_eq splitOn_single)
  show ?thesis
    using nh1 nh2 nb nn ne title split
    by (simp add: renderLine_Twitter_def renderLine_Storyteller_def renderLine_Lesson_def Let_def)
qed

theorem C10_witness:
  "str ''  '' \<noteq> [] \<and> list_all isWhiteSpace (str ''  '')
   \<and> (\<exists>c\<in>set (str ''X''). \<not> isWhiteSpace c)
   \<and> (\<exists>st. renderLine_Twitter DARK 1 (3 / 2) 1 None left (str ''  # X'')
              = Paragraph st [Lit (str ''  # X'')])
   \<and> isTitleLine (str ''  # X'')
   \<and> splitContentByHeaders (str ''  # X'') = \<lparr>titleLines = str ''  # X'', bodyLines = []\<rparr>"
proof -
  have h1: "str ''  '' \<noteq> []" by simp
  have h2: "\<forall>c\<in>set (str ''  ''). isWhiteSpace c" by (simp add: isWhiteSpace_def)
  have h3: "\<exists>c\<in>set (str ''X''). \<not> isWhiteSpace c" by (simp add: isWhiteSpace_def)
  have h4: "str ''  # X'' = str ''  '' @ str ''# '' @ str ''X''
            \<or> str ''  # X'' = str ''  '' @ str ''## '' @ str ''X''" by simp
  have p: "parseInline_Twitter (str ''  # X'') DARK = [Lit (str ''  # X'')]"
    by (simp add: parseInline_Twitter_def splitInline_def matchToken_def matchDelim_def
          isLineTerminator_def endsWith_def)
  have n: "10 \<notin> set (str ''  # X'')" by simp
  from C10_indented_heading [OF h1 h2 h3 h4, of DARK 1 "3 / 2" 1 None left]
  show ?thesis using h1 h2 h3 p n by (simp add: list_all_iff)
qed

theorem C10_counterexample:
  "(\<exists>st. renderLine_Twitter DARK 1 (3 / 2) 1 None left (str ''  # '')
            = Paragraph st [Lit (str ''  # '')])
   \<and> \<not> isTitleLine (str ''  # '')
   \<and> splitContentByHeaders (str ''  # '') = \<lparr>titleLines = [], bodyLines = str ''  # ''\<rparr>"
proof -
  have tr: "trim (str ''  # '') = str ''#''"
    by (simp add: trim_trimEnd trimEnd_Cons isWhiteSpace_def)
  have nt: "\<not> isTitleLine (str ''  # '')"
    unfolding isTitleLine_def tr by simp
  have p: "parseInline_Twitter (str ''  # '') DARK = [Lit (str ''  # '')]"
    by (simp add: parseInline_Twitter_def splitInline_def matchToken_def matchDelim_def
          isLineTerminator_def endsWith_def)
  have r: "\<exists>st. renderLine_Twitter DARK 1 (3 / 2) 1 None left (str ''  # '')
            = Paragraph st [Lit (str ''  # '')]"
    unfolding renderLine_Twitter_def Let_def tr p
    by (simp add: testNumbered_def)
  have s: "splitContentByHeaders (str ''  # '') = \<lparr>titleLines = [], bodyLines = str ''  # ''\<rparr>"
    using nt by (simp add: splitContentByHeaders_eq)
  from r nt s show ?thesis by simp
qed

end
